theory Spec2Isabelle
  imports Complex_Main
begin

section \<open>Numbers\<close>

text \<open>
  The TypeScript sources compute with \<^verbatim>\<open>number\<close>.  What is read from outside (the
  fields of a candle, and with them the price of a signal; the thresholds of a
  strategy) is a finite number, modelled as a real.  What the code computes from a
  quotient whose divisor the input decides, or adds up over a whole run, is a
  \<open>jsnum\<close>: a real, one of the two infinities, or \<^verbatim>\<open>NaN\<close>, with the arithmetic and the
  comparisons of the language on them.  The periods of the crossover are \<open>jsnum\<close>
  too, because one of them becomes the loop index of the backtest; the periods of the
  other strategies are counts.

  Three things are outside this model: rounding (the arithmetic on finite values is
  exact), overflow of finite values, and the sign of zero (there is one zero, the
  positive one).  The indicators of the RSI, Bollinger, MACD, combination and
  scalping strategies are computed over the reals, where a quotient by zero is not
  what the source computes; no statement below depends on such a quotient.  Log
  output is not modelled, and the optional \<^verbatim>\<open>metadata\<close> of a signal (formatted strings
  that nothing reads back) is left out.
\<close>

datatype jsnum = Finite real | PosInf | NegInf | NaN

instantiation jsnum :: "{plus, minus, uminus, times, inverse, abs, ord}"
begin

fun uminus_jsnum :: "jsnum \<Rightarrow> jsnum" where
  "uminus_jsnum (Finite a) = Finite (- a)"
| "uminus_jsnum PosInf = NegInf"
| "uminus_jsnum NegInf = PosInf"
| "uminus_jsnum NaN = NaN"

fun plus_jsnum :: "jsnum \<Rightarrow> jsnum \<Rightarrow> jsnum" where
  "plus_jsnum (Finite a) (Finite b) = Finite (a + b)"
| "plus_jsnum NaN y = NaN"
| "plus_jsnum x NaN = NaN"
| "plus_jsnum PosInf NegInf = NaN"
| "plus_jsnum NegInf PosInf = NaN"
| "plus_jsnum PosInf y = PosInf"
| "plus_jsnum x PosInf = PosInf"
| "plus_jsnum NegInf y = NegInf"
| "plus_jsnum x NegInf = NegInf"

definition minus_jsnum :: "jsnum \<Rightarrow> jsnum \<Rightarrow> jsnum" where
  "minus_jsnum x y = x + (- y)"

fun times_jsnum :: "jsnum \<Rightarrow> jsnum \<Rightarrow> jsnum" where
  "times_jsnum (Finite a) (Finite b) = Finite (a * b)"
| "times_jsnum NaN y = NaN"
| "times_jsnum x NaN = NaN"
| "times_jsnum (Finite a) PosInf = (if a = 0 then NaN else if 0 < a then PosInf else NegInf)"
| "times_jsnum (Finite a) NegInf = (if a = 0 then NaN else if 0 < a then NegInf else PosInf)"
| "times_jsnum PosInf (Finite b) = (if b = 0 then NaN else if 0 < b then PosInf else NegInf)"
| "times_jsnum NegInf (Finite b) = (if b = 0 then NaN else if 0 < b then NegInf else PosInf)"
| "times_jsnum PosInf PosInf = PosInf"
| "times_jsnum NegInf NegInf = PosInf"
| "times_jsnum PosInf NegInf = NegInf"
| "times_jsnum NegInf PosInf = NegInf"

fun divide_jsnum :: "jsnum \<Rightarrow> jsnum \<Rightarrow> jsnum" where
  "divide_jsnum (Finite a) (Finite b) =
     (if b \<noteq> 0 then Finite (a / b)
      else if a = 0 then NaN else if 0 < a then PosInf else NegInf)"
| "divide_jsnum NaN y = NaN"
| "divide_jsnum x NaN = NaN"
| "divide_jsnum (Finite a) PosInf = Finite 0"
| "divide_jsnum (Finite a) NegInf = Finite 0"
| "divide_jsnum PosInf (Finite b) = (if 0 \<le> b then PosInf else NegInf)"
| "divide_jsnum NegInf (Finite b) = (if 0 \<le> b then NegInf else PosInf)"
| "divide_jsnum PosInf PosInf = NaN"
| "divide_jsnum PosInf NegInf = NaN"
| "divide_jsnum NegInf PosInf = NaN"
| "divide_jsnum NegInf NegInf = NaN"

fun inverse_jsnum :: "jsnum \<Rightarrow> jsnum" where
  "inverse_jsnum (Finite a) = (if a \<noteq> 0 then Finite (1 / a) else PosInf)"
| "inverse_jsnum PosInf = Finite 0"
| "inverse_jsnum NegInf = Finite 0"
| "inverse_jsnum NaN = NaN"

fun abs_jsnum :: "jsnum \<Rightarrow> jsnum" where
  "abs_jsnum (Finite a) = Finite \<bar>a\<bar>"
| "abs_jsnum PosInf = PosInf"
| "abs_jsnum NegInf = PosInf"
| "abs_jsnum NaN = NaN"

fun less_jsnum :: "jsnum \<Rightarrow> jsnum \<Rightarrow> bool" where
  "less_jsnum (Finite a) (Finite b) = (a < b)"
| "less_jsnum (Finite a) PosInf = True"
| "less_jsnum NegInf (Finite b) = True"
| "less_jsnum NegInf PosInf = True"
| "less_jsnum x y = False"

fun less_eq_jsnum :: "jsnum \<Rightarrow> jsnum \<Rightarrow> bool" where
  "less_eq_jsnum (Finite a) (Finite b) = (a \<le> b)"
| "less_eq_jsnum NaN y = False"
| "less_eq_jsnum x NaN = False"
| "less_eq_jsnum NegInf y = True"
| "less_eq_jsnum x PosInf = True"
| "less_eq_jsnum x y = False"

instance ..

end

text \<open>
  \<^verbatim>\<open>x === y\<close> on numbers: \<^verbatim>\<open>NaN\<close> equals nothing, not even itself.  Against a constant
  that is not \<^verbatim>\<open>NaN\<close>, as in \<^verbatim>\<open>position === 0\<close>, it is plain equality.
\<close>

definition strict_equal :: "jsnum \<Rightarrow> jsnum \<Rightarrow> bool" where
  "strict_equal x y = (x = y \<and> x \<noteq> NaN)"

text \<open>
  \<^verbatim>\<open>Math.max\<close> and \<^verbatim>\<open>Math.min\<close> of two numbers answer \<^verbatim>\<open>NaN\<close> as soon as one of them is
  \<^verbatim>\<open>NaN\<close>.
\<close>

definition Math_max :: "jsnum \<Rightarrow> jsnum \<Rightarrow> jsnum" where
  "Math_max x y = (if x = NaN \<or> y = NaN then NaN else if x < y then y else x)"

definition Math_min :: "jsnum \<Rightarrow> jsnum \<Rightarrow> jsnum" where
  "Math_min x y = (if x = NaN \<or> y = NaN then NaN else if y < x then y else x)"

section \<open>Data model\<close>

text \<open>A \<^verbatim>\<open>Date\<close> is its integer millisecond value.\<close>

datatype signal_type = BUY | SELL | HOLD

record candle =
  c_timestamp :: int
  c_open :: real
  c_high :: real
  c_low :: real
  c_close :: real
  c_volume :: real

record signal =
  s_type :: signal_type
  s_price :: real
  s_timestamp :: int
  s_confidence :: jsnum

text \<open>Reading a property of \<^verbatim>\<open>undefined\<close> (an index outside the array) throws.\<close>

datatype error = TypeError

section \<open>Array helpers\<close>

text \<open>
  \<^verbatim>\<open>xs.slice(-n)\<close> for a count \<open>n\<close>: the last \<open>n\<close> elements, all of them when there are
  fewer, and the whole array for \<open>n = 0\<close> (\<^verbatim>\<open>slice(-0)\<close> is \<^verbatim>\<open>slice(0)\<close>).
  \<^verbatim>\<open>xs.slice(0, -1)\<close> is \<^const>\<open>butlast\<close>.
\<close>

definition slice_last :: "nat \<Rightarrow> 'a list \<Rightarrow> 'a list" where
  "slice_last n xs = (if n = 0 then xs else drop (length xs - n) xs)"

text \<open>
  \<^verbatim>\<open>slice\<close> with an argument that is any number.  The argument is first truncated
  towards zero, \<^verbatim>\<open>NaN\<close> counting as 0; a negative result counts from the end; the result
  is clamped to the array.  \<open>relative_index\<close> is the position so found,
  \<open>slice_from start xs\<close> is \<^verbatim>\<open>xs.slice(start)\<close> and \<open>slice_to end xs\<close> is
  \<^verbatim>\<open>xs.slice(0, end)\<close>.
\<close>

definition toInteger :: "real \<Rightarrow> int" where
  "toInteger r = (if 0 \<le> r then \<lfloor>r\<rfloor> else - \<lfloor>- r\<rfloor>)"

fun relative_index :: "jsnum \<Rightarrow> nat \<Rightarrow> nat" where
  "relative_index (Finite r) len =
     (if toInteger r < 0 then nat (max (int len + toInteger r) 0)
      else min (nat (toInteger r)) len)"
| "relative_index PosInf len = len"
| "relative_index NegInf len = 0"
| "relative_index NaN len = 0"

definition slice_from :: "jsnum \<Rightarrow> 'a list \<Rightarrow> 'a list" where
  "slice_from start xs = drop (relative_index start (length xs)) xs"

definition slice_to :: "jsnum \<Rightarrow> 'a list \<Rightarrow> 'a list" where
  "slice_to end xs = take (relative_index end (length xs)) xs"

text \<open>
  \<^verbatim>\<open>xs[i]\<close> for a number \<open>i\<close>: the element when \<open>i\<close> is a whole number within the array,
  \<^verbatim>\<open>undefined\<close> otherwise.  \<open>remainder_is_zero i m\<close> is \<^verbatim>\<open>i % m === 0\<close> for a positive
  constant \<open>m\<close>.
\<close>

fun element :: "'a list \<Rightarrow> jsnum \<Rightarrow> 'a option" where
  "element xs (Finite r) =
     (if r = of_int \<lfloor>r\<rfloor> \<and> 0 \<le> r \<and> r < real (length xs) then Some (xs ! nat \<lfloor>r\<rfloor>) else None)"
| "element xs i = None"

fun remainder_is_zero :: "jsnum \<Rightarrow> real \<Rightarrow> bool" where
  "remainder_is_zero (Finite r) m = (r / m = of_int \<lfloor>r / m\<rfloor>)"
| "remainder_is_zero i m = False"

section \<open>Strategies\<close>

text \<open>
  Each class is a record of its fields: the constructor's parameters and the mutable
  state.  Every \<^verbatim>\<open>analyze\<close> reads \<^verbatim>\<open>candles[candles.length - 1].close\<close> on each of its
  paths, which throws for an empty array; that is the first branch of each model.
\<close>

definition holdSignal :: "candle \<Rightarrow> signal" where
  "holdSignal cd =
     \<lparr>s_type = HOLD, s_price = c_close cd, s_timestamp = c_timestamp cd, s_confidence = Finite 0\<rparr>"

subsection \<open>Moving average crossover\<close>

record MovingAverageCrossover =
  mac_shortPeriod :: jsnum
  mac_longPeriod :: jsnum
  mac_lastSignal :: signal_type

definition new_MovingAverageCrossover :: "jsnum \<Rightarrow> jsnum \<Rightarrow> MovingAverageCrossover" where
  "new_MovingAverageCrossover shortPeriod longPeriod =
     \<lparr>mac_shortPeriod = shortPeriod, mac_longPeriod = longPeriod, mac_lastSignal = HOLD\<rparr>"

text \<open>
  The two periods are whatever numbers the constructor was given.  \<^verbatim>\<open>calculateMA\<close>
  compares the length with the period, takes \<^verbatim>\<open>candles.slice(-period)\<close> and divides
  the sum of its closes by the period: the quotient is infinite or \<^verbatim>\<open>NaN\<close> for a period
  of 0.
\<close>

definition calculateMA :: "candle list \<Rightarrow> jsnum \<Rightarrow> jsnum" where
  "calculateMA candles period =
     (if Finite (real (length candles)) < period then Finite 0
      else
        (let slice = slice_from (- period) candles;
             sum = foldl (\<lambda>acc cd. acc + c_close cd) 0 slice
         in Finite sum / period))"

definition mac_analyze ::
  "MovingAverageCrossover \<Rightarrow> candle list \<Rightarrow> error + signal \<times> MovingAverageCrossover" where
  "mac_analyze s candles =
     (if candles = [] then Inl TypeError
      else if Finite (real (length candles)) < mac_longPeriod s then
        Inr (holdSignal (last candles), s)
      else
        (let shortMA = calculateMA candles (mac_shortPeriod s);
             longMA = calculateMA candles (mac_longPeriod s);
             prevCandles = butlast candles;
             prevShortMA = calculateMA prevCandles (mac_shortPeriod s);
             prevLongMA = calculateMA prevCandles (mac_longPeriod s);
             currentCandle = last candles;
             currentSpread = (shortMA - longMA) / longMA
         in
           if prevShortMA \<le> prevLongMA \<and> shortMA > longMA \<and> mac_lastSignal s \<noteq> BUY then
             Inr (\<lparr>s_type = BUY, s_price = c_close currentCandle,
                   s_timestamp = c_timestamp currentCandle,
                   s_confidence =
                     Math_max (Finite 0.5) (Math_min (Finite 0.9) (\<bar>currentSpread\<bar> * Finite 50))\<rparr>,
                  s\<lparr>mac_lastSignal := BUY\<rparr>)
           else if prevShortMA \<ge> prevLongMA \<and> shortMA < longMA \<and> mac_lastSignal s \<noteq> SELL then
             Inr (\<lparr>s_type = SELL, s_price = c_close currentCandle,
                   s_timestamp = c_timestamp currentCandle,
                   s_confidence =
                     Math_max (Finite 0.5) (Math_min (Finite 0.9) (\<bar>currentSpread\<bar> * Finite 50))\<rparr>,
                  s\<lparr>mac_lastSignal := SELL\<rparr>)
           else
             Inr (\<lparr>s_type = HOLD, s_price = c_close currentCandle,
                   s_timestamp = c_timestamp currentCandle, s_confidence = Finite 0\<rparr>, s)))"

subsection \<open>RSI\<close>

record RSIStrategy =
  rsi_period :: nat
  rsi_oversoldThreshold :: real
  rsi_overboughtThreshold :: real
  rsi_lastSignal :: signal_type

definition new_RSIStrategy :: "nat \<Rightarrow> real \<Rightarrow> real \<Rightarrow> RSIStrategy" where
  "new_RSIStrategy period oversold overbought =
     \<lparr>rsi_period = period, rsi_oversoldThreshold = oversold,
      rsi_overboughtThreshold = overbought, rsi_lastSignal = HOLD\<rparr>"

text \<open>The array \<^verbatim>\<open>changes\<close>: close-to-close differences, index 1 to the end.\<close>

definition closeChanges :: "candle list \<Rightarrow> real list" where
  "closeChanges candles =
     map (\<lambda>i. c_close (candles ! i) - c_close (candles ! (i - 1))) [1..<length candles]"

text \<open>The accumulation loop over \<^verbatim>\<open>recentChanges\<close>, carrying (gains, losses).\<close>

definition gainsLosses :: "real list \<Rightarrow> real \<times> real" where
  "gainsLosses recentChanges =
     foldl (\<lambda>(gains, losses) change.
              if change > 0 then (gains + change, losses) else (gains, losses + \<bar>change\<bar>))
       (0, 0) recentChanges"

definition calculateRSI :: "nat \<Rightarrow> candle list \<Rightarrow> real" where
  "calculateRSI period candles =
     (if length candles < period + 1 then 50
      else
        (let recentChanges = slice_last period (closeChanges candles);
             (gains, losses) = gainsLosses recentChanges;
             avgGain = gains / real period;
             avgLoss = losses / real period
         in if avgLoss = 0 then 100
            else (let rs = avgGain / avgLoss in 100 - 100 / (1 + rs))))"

definition rsi_analyze :: "RSIStrategy \<Rightarrow> candle list \<Rightarrow> error + signal \<times> RSIStrategy" where
  "rsi_analyze s candles =
     (if candles = [] then Inl TypeError
      else if length candles < rsi_period s + 1 then Inr (holdSignal (last candles), s)
      else
        (let rsi = calculateRSI (rsi_period s) candles;
             prevRSI = calculateRSI (rsi_period s) (butlast candles);
             currentCandle = last candles
         in
           if prevRSI \<le> rsi_oversoldThreshold s \<and> rsi > rsi_oversoldThreshold s \<and>
              rsi_lastSignal s \<noteq> BUY then
             Inr (\<lparr>s_type = BUY, s_price = c_close currentCandle,
                   s_timestamp = c_timestamp currentCandle,
                   s_confidence =
                     Finite (min 0.9 ((rsi_oversoldThreshold s - min prevRSI 20) / 20))\<rparr>,
                  s\<lparr>rsi_lastSignal := BUY\<rparr>)
           else if prevRSI \<ge> rsi_overboughtThreshold s \<and> rsi < rsi_overboughtThreshold s \<and>
              rsi_lastSignal s \<noteq> SELL then
             Inr (\<lparr>s_type = SELL, s_price = c_close currentCandle,
                   s_timestamp = c_timestamp currentCandle,
                   s_confidence =
                     Finite (min 0.9 ((max prevRSI 80 - rsi_overboughtThreshold s) / 20))\<rparr>,
                  s\<lparr>rsi_lastSignal := SELL\<rparr>)
           else
             Inr (\<lparr>s_type = HOLD, s_price = c_close currentCandle,
                   s_timestamp = c_timestamp currentCandle, s_confidence = Finite 0\<rparr>, s)))"

subsection \<open>Bollinger bands\<close>

record BollingerBandsStrategy =
  bb_period :: nat
  bb_standardDeviations :: real
  bb_lastSignal :: signal_type

definition new_BollingerBandsStrategy :: "nat \<Rightarrow> real \<Rightarrow> BollingerBandsStrategy" where
  "new_BollingerBandsStrategy period standardDeviations =
     \<lparr>bb_period = period, bb_standardDeviations = standardDeviations, bb_lastSignal = HOLD\<rparr>"

text \<open>The result is (upperBand, lowerBand, middleBand).\<close>

definition calculateBollingerBands ::
  "BollingerBandsStrategy \<Rightarrow> candle list \<Rightarrow> real \<times> real \<times> real" where
  "calculateBollingerBands s candles =
     (let recentCandles = slice_last (bb_period s) candles;
          middleBand = foldl (\<lambda>sum cd. sum + c_close cd) 0 recentCandles / real (bb_period s);
          variance = foldl (\<lambda>sum cd. sum + (c_close cd - middleBand) ^ 2) 0 recentCandles
                       / real (bb_period s);
          standardDeviation = sqrt variance;
          upperBand = middleBand + standardDeviation * bb_standardDeviations s;
          lowerBand = middleBand - standardDeviation * bb_standardDeviations s
      in (upperBand, lowerBand, middleBand))"

definition bb_analyze ::
  "BollingerBandsStrategy \<Rightarrow> candle list \<Rightarrow> error + signal \<times> BollingerBandsStrategy" where
  "bb_analyze s candles =
     (if candles = [] then Inl TypeError
      else if length candles < bb_period s then Inr (holdSignal (last candles), s)
      else
        (let (upperBand, lowerBand, middleBand) = calculateBollingerBands s candles;
             currentCandle = last candles;
             price = c_close currentCandle
         in
           if price \<le> lowerBand \<and> bb_lastSignal s \<noteq> BUY then
             Inr (\<lparr>s_type = BUY, s_price = c_close currentCandle,
                   s_timestamp = c_timestamp currentCandle,
                   s_confidence =
                     Math_min (Finite 0.9)
                       ((Finite (lowerBand - price) / Finite lowerBand) * Finite 10)\<rparr>,
                  s\<lparr>bb_lastSignal := BUY\<rparr>)
           else if price \<ge> upperBand \<and> bb_lastSignal s \<noteq> SELL then
             Inr (\<lparr>s_type = SELL, s_price = c_close currentCandle,
                   s_timestamp = c_timestamp currentCandle,
                   s_confidence =
                     Math_min (Finite 0.9)
                       ((Finite (price - upperBand) / Finite upperBand) * Finite 10)\<rparr>,
                  s\<lparr>bb_lastSignal := SELL\<rparr>)
           else
             Inr (\<lparr>s_type = HOLD, s_price = c_close currentCandle,
                   s_timestamp = c_timestamp currentCandle, s_confidence = Finite 0\<rparr>, s)))"

subsection \<open>MACD\<close>

record MACDStrategy =
  macd_fastPeriod :: nat
  macd_slowPeriod :: nat
  macd_signalPeriod :: nat
  macd_lastSignal :: signal_type

definition new_MACDStrategy :: "nat \<Rightarrow> nat \<Rightarrow> nat \<Rightarrow> MACDStrategy" where
  "new_MACDStrategy fastPeriod slowPeriod signalPeriod =
     \<lparr>macd_fastPeriod = fastPeriod, macd_slowPeriod = slowPeriod,
      macd_signalPeriod = signalPeriod, macd_lastSignal = HOLD\<rparr>"

text \<open>
  \<^verbatim>\<open>calculateEMA\<close> seeds the recurrence with \<^verbatim>\<open>candles[candles.length - period]\<close>, which
  is outside the array for \<open>period = 0\<close>; the short-array branch reads the last candle,
  which an empty array does not have.
\<close>

definition calculateEMA :: "candle list \<Rightarrow> nat \<Rightarrow> error + real" where
  "calculateEMA candles period =
     (if length candles < period then
        (if candles = [] then Inl TypeError else Inr (c_close (last candles)))
      else if period = 0 then Inl TypeError
      else
        (let multiplier = 2 / (real period + 1);
             ema0 = c_close (candles ! (length candles - period))
         in Inr (foldl (\<lambda>ema i. c_close (candles ! i) * multiplier + ema * (1 - multiplier))
                   ema0 [length candles - period + 1..<length candles])))"

text \<open>The loop that fills \<^verbatim>\<open>macdValues\<close>, over the indices it visits.\<close>

fun macdValues_loop :: "MACDStrategy \<Rightarrow> candle list \<Rightarrow> nat list \<Rightarrow> error + real list" where
  "macdValues_loop s candles [] = Inr []"
| "macdValues_loop s candles (i # is) =
     (if i \<ge> macd_slowPeriod s then
        (case calculateEMA (take (i + 1) candles) (macd_fastPeriod s) of
           Inl e \<Rightarrow> Inl e
         | Inr fEMA \<Rightarrow>
             (case calculateEMA (take (i + 1) candles) (macd_slowPeriod s) of
                Inl e \<Rightarrow> Inl e
              | Inr sEMA \<Rightarrow>
                  (case macdValues_loop s candles is of
                     Inl e \<Rightarrow> Inl e
                   | Inr vs \<Rightarrow> Inr ((fEMA - sEMA) # vs))))
      else macdValues_loop s candles is)"

text \<open>The result is \<open>None\<close> for \<^verbatim>\<open>null\<close>, and otherwise (macd, signal, histogram).\<close>

definition calculateMACD ::
  "MACDStrategy \<Rightarrow> candle list \<Rightarrow> error + (real \<times> real \<times> real) option" where
  "calculateMACD s candles =
     (if length candles < macd_slowPeriod s + macd_signalPeriod s then Inr None
      else
        (case calculateEMA candles (macd_fastPeriod s) of
           Inl e \<Rightarrow> Inl e
         | Inr fastEMA \<Rightarrow>
             (case calculateEMA candles (macd_slowPeriod s) of
                Inl e \<Rightarrow> Inl e
              | Inr slowEMA \<Rightarrow>
                  (let macd = fastEMA - slowEMA in
                   case macdValues_loop s candles
                          [length candles - macd_signalPeriod s..<length candles] of
                     Inl e \<Rightarrow> Inl e
                   | Inr macdValues \<Rightarrow>
                       (let signal = foldl (\<lambda>sum val. sum + val) 0 macdValues
                                       / real (length macdValues);
                            histogram = macd - signal
                        in Inr (Some (macd, signal, histogram)))))))"

definition macd_analyze :: "MACDStrategy \<Rightarrow> candle list \<Rightarrow> error + signal \<times> MACDStrategy" where
  "macd_analyze s candles =
     (if candles = [] then Inl TypeError
      else if length candles < macd_slowPeriod s + macd_signalPeriod s + 5 then
        Inr (holdSignal (last candles), s)
      else
        (let currentCandle = last candles in
         case calculateMACD s candles of
           Inl e \<Rightarrow> Inl e
         | Inr macdData \<Rightarrow>
             (case calculateMACD s (butlast candles) of
                Inl e \<Rightarrow> Inl e
              | Inr prevMACDData \<Rightarrow>
                  (case (macdData, prevMACDData) of
                     (Some (macd, macdSignal, histogram),
                      Some (prevMACD, prevMACDSignal, prevHistogram)) \<Rightarrow>
                       (let bullishCrossover = (prevMACD \<le> prevMACDSignal \<and> macd > macdSignal);
                            bearishCrossover = (prevMACD \<ge> prevMACDSignal \<and> macd < macdSignal);
                            macdAboveZero = (macd > 0);
                            macdBelowZero = (macd < 0)
                        in
                          if bullishCrossover \<and> macd_lastSignal s \<noteq> BUY then
                            Inr (\<lparr>s_type = BUY, s_price = c_close currentCandle,
                                  s_timestamp = c_timestamp currentCandle,
                                  s_confidence =
                                    Finite (if macdAboveZero then 0.8
                                            else if histogram > 0 then 0.6 else 0.4)\<rparr>,
                                 s\<lparr>macd_lastSignal := BUY\<rparr>)
                          else if bearishCrossover \<and> macd_lastSignal s \<noteq> SELL then
                            Inr (\<lparr>s_type = SELL, s_price = c_close currentCandle,
                                  s_timestamp = c_timestamp currentCandle,
                                  s_confidence =
                                    Finite (if macdBelowZero then 0.8
                                            else if histogram < 0 then 0.6 else 0.4)\<rparr>,
                                 s\<lparr>macd_lastSignal := SELL\<rparr>)
                          else
                            Inr (\<lparr>s_type = HOLD, s_price = c_close currentCandle,
                                  s_timestamp = c_timestamp currentCandle,
                                  s_confidence = Finite 0\<rparr>, s))
                   | _ \<Rightarrow> Inr (holdSignal currentCandle, s)))))"

subsection \<open>RSI and moving-average combination\<close>

record RSI_MA_ComboStrategy =
  combo_rsiPeriod :: nat
  combo_rsiOversold :: real
  combo_rsiOverbought :: real
  combo_maShortPeriod :: nat
  combo_maLongPeriod :: nat
  combo_lastSignal :: signal_type

definition new_RSI_MA_ComboStrategy ::
  "nat \<Rightarrow> real \<Rightarrow> real \<Rightarrow> nat \<Rightarrow> nat \<Rightarrow> RSI_MA_ComboStrategy" where
  "new_RSI_MA_ComboStrategy rsiPeriod rsiOversold rsiOverbought maShortPeriod maLongPeriod =
     \<lparr>combo_rsiPeriod = rsiPeriod, combo_rsiOversold = rsiOversold,
      combo_rsiOverbought = rsiOverbought, combo_maShortPeriod = maShortPeriod,
      combo_maLongPeriod = maLongPeriod, combo_lastSignal = HOLD\<rparr>"

definition combo_calculateRSI :: "nat \<Rightarrow> candle list \<Rightarrow> real" where
  "combo_calculateRSI rsiPeriod candles =
     (if length candles < rsiPeriod + 1 then 50
      else
        (let recentChanges = slice_last rsiPeriod (closeChanges candles);
             (gains, losses) = gainsLosses recentChanges;
             avgGain = gains / real rsiPeriod;
             avgLoss = losses / real rsiPeriod
         in if avgLoss = 0 then 100
            else (let rs = avgGain / avgLoss in 100 - 100 / (1 + rs))))"

text \<open>This class's \<^verbatim>\<open>calculateMA\<close> returns the last close for a short array.\<close>

definition combo_calculateMA :: "candle list \<Rightarrow> nat \<Rightarrow> error + real" where
  "combo_calculateMA candles period =
     (if length candles < period then
        (if candles = [] then Inl TypeError else Inr (c_close (last candles)))
      else
        (let slice = slice_last period candles;
             sum = foldl (\<lambda>acc cd. acc + c_close cd) 0 slice
         in Inr (sum / real period)))"

definition combo_decide ::
  "RSI_MA_ComboStrategy \<Rightarrow> candle \<Rightarrow> real \<Rightarrow> real \<Rightarrow> real \<Rightarrow> real \<Rightarrow> real \<Rightarrow> real \<Rightarrow>
     signal \<times> RSI_MA_ComboStrategy" where
  "combo_decide s currentCandle rsi prevRSI shortMA longMA prevShortMA prevLongMA =
     (let bullishTrend = (shortMA > longMA);
          bearishTrend = (shortMA < longMA);
          trendStrength = \<bar>(shortMA - longMA) / longMA\<bar>;
          rsiOversoldRecovery = (prevRSI \<le> combo_rsiOversold s \<and> rsi > combo_rsiOversold s);
          maUpCross = (prevShortMA \<le> prevLongMA \<and> shortMA > longMA);
          strongBullishTrend = (bullishTrend \<and> trendStrength > 0.001);
          rsiOverboughtDecline =
            (prevRSI \<ge> combo_rsiOverbought s \<and> rsi < combo_rsiOverbought s);
          maDownCross = (prevShortMA \<ge> prevLongMA \<and> shortMA < longMA);
          strongBearishTrend = (bearishTrend \<and> trendStrength > 0.001);
          emit = (\<lambda>ty conf.
                    (\<lparr>s_type = ty, s_price = c_close currentCandle,
                      s_timestamp = c_timestamp currentCandle,
                      s_confidence = Finite conf\<rparr>,
                     s\<lparr>combo_lastSignal := ty\<rparr>))
      in
        if rsiOversoldRecovery \<and> maUpCross \<and> combo_lastSignal s \<noteq> BUY then emit BUY 0.9
        else if rsiOversoldRecovery \<and> strongBullishTrend \<and> combo_lastSignal s \<noteq> BUY
          then emit BUY 0.7
        else if maUpCross \<and> rsi < 60 \<and> combo_lastSignal s \<noteq> BUY then emit BUY 0.5
        else if rsiOverboughtDecline \<and> maDownCross \<and> combo_lastSignal s \<noteq> SELL
          then emit SELL 0.9
        else if rsiOverboughtDecline \<and> strongBearishTrend \<and> combo_lastSignal s \<noteq> SELL
          then emit SELL 0.7
        else if maDownCross \<and> rsi > 40 \<and> combo_lastSignal s \<noteq> SELL then emit SELL 0.5
        else
          (\<lparr>s_type = HOLD, s_price = c_close currentCandle,
            s_timestamp = c_timestamp currentCandle, s_confidence = Finite 0\<rparr>, s))"

definition combo_analyze ::
  "RSI_MA_ComboStrategy \<Rightarrow> candle list \<Rightarrow> error + signal \<times> RSI_MA_ComboStrategy" where
  "combo_analyze s candles =
     (if candles = [] then Inl TypeError
      else if length candles < max (combo_rsiPeriod s) (combo_maLongPeriod s) + 5 then
        Inr (holdSignal (last candles), s)
      else
        (let currentCandle = last candles;
             rsi = combo_calculateRSI (combo_rsiPeriod s) candles;
             prevRSI = combo_calculateRSI (combo_rsiPeriod s) (butlast candles)
         in
           case combo_calculateMA candles (combo_maShortPeriod s) of
             Inl e \<Rightarrow> Inl e
           | Inr shortMA \<Rightarrow>
           (case combo_calculateMA candles (combo_maLongPeriod s) of
             Inl e \<Rightarrow> Inl e
           | Inr longMA \<Rightarrow>
           (case combo_calculateMA (butlast candles) (combo_maShortPeriod s) of
             Inl e \<Rightarrow> Inl e
           | Inr prevShortMA \<Rightarrow>
           (case combo_calculateMA (butlast candles) (combo_maLongPeriod s) of
             Inl e \<Rightarrow> Inl e
           | Inr prevLongMA \<Rightarrow>
               Inr (combo_decide s currentCandle rsi prevRSI shortMA longMA
                      prevShortMA prevLongMA))))))"

subsection \<open>Scalping\<close>

text \<open>
  The only strategy with positions of its own.  \<^verbatim>\<open>positions\<close> is a \<^verbatim>\<open>Map\<close>, iterated in
  insertion order: an association list, where \<^verbatim>\<open>set\<close> replaces the value of a key in
  place or appends a new key, and \<^verbatim>\<open>delete\<close> removes the key.
\<close>

record scalp_position =
  p_entry :: real
  p_timestamp :: int
  p_candles :: nat

record ScalpingStrategy =
  sc_spreadThreshold :: real
  sc_volumeThreshold :: real
  sc_quickProfitTarget :: real
  sc_maxHoldTime :: real
  sc_volatilityPeriod :: nat
  sc_minVolatility :: real
  sc_positions :: "(string \<times> scalp_position) list"
  sc_recentTrades :: "(int \<times> real) list"

definition new_ScalpingStrategy ::
  "real \<Rightarrow> real \<Rightarrow> real \<Rightarrow> real \<Rightarrow> nat \<Rightarrow> real \<Rightarrow> ScalpingStrategy" where
  "new_ScalpingStrategy spreadThreshold volumeThreshold quickProfitTarget maxHoldTime
       volatilityPeriod minVolatility =
     \<lparr>sc_spreadThreshold = spreadThreshold, sc_volumeThreshold = volumeThreshold,
      sc_quickProfitTarget = quickProfitTarget, sc_maxHoldTime = maxHoldTime,
      sc_volatilityPeriod = volatilityPeriod, sc_minVolatility = minVolatility,
      sc_positions = [], sc_recentTrades = []\<rparr>"

fun map_set :: "'k \<Rightarrow> 'v \<Rightarrow> ('k \<times> 'v) list \<Rightarrow> ('k \<times> 'v) list" where
  "map_set k v [] = [(k, v)]"
| "map_set k v ((k', v') # kvs) =
     (if k' = k then (k, v) # kvs else (k', v') # map_set k v kvs)"

definition map_delete :: "'k \<Rightarrow> ('k \<times> 'v) list \<Rightarrow> ('k \<times> 'v) list" where
  "map_delete k kvs = filter (\<lambda>(k', v). k' \<noteq> k) kvs"

datatype direction = UP | DOWN | SIDEWAYS | NEUTRAL

definition updatePositions :: "ScalpingStrategy \<Rightarrow> ScalpingStrategy" where
  "updatePositions s =
     s\<lparr>sc_positions :=
         map (\<lambda>(key, pos). (key, pos\<lparr>p_candles := p_candles pos + 1\<rparr>)) (sc_positions s)\<rparr>"

definition cleanOldTrades :: "ScalpingStrategy \<Rightarrow> int \<Rightarrow> ScalpingStrategy" where
  "cleanOldTrades s currentTime =
     (let oneHourAgo = currentTime - 3600000 in
      s\<lparr>sc_recentTrades := filter (\<lambda>(ts, profit). ts > oneHourAgo) (sc_recentTrades s)\<rparr>)"

definition calculateAverageVolume :: "candle list \<Rightarrow> nat \<Rightarrow> real" where
  "calculateAverageVolume candles period =
     (let recentCandles = slice_last period candles;
          totalVolume = foldl (\<lambda>sum cd. sum + c_volume cd) 0 recentCandles
      in totalVolume / real (length recentCandles))"

definition checkVolumeSpike :: "ScalpingStrategy \<Rightarrow> candle list \<Rightarrow> bool" where
  "checkVolumeSpike s candles =
     (let currentVolume = c_volume (last candles);
          avgVolume = calculateAverageVolume candles 20
      in currentVolume / avgVolume \<ge> sc_volumeThreshold s)"

text \<open>
  \<^verbatim>\<open>analyzePriceAction\<close>, \<^verbatim>\<open>calculateMomentum\<close> and \<^verbatim>\<open>getInstantScalpSignal\<close> index the last
  two or three candles; they are only called on arrays of at least five.
\<close>

definition analyzePriceAction :: "candle list \<Rightarrow> direction \<times> real" where
  "analyzePriceAction candles =
     (let current = candles ! (length candles - 1);
          prev = candles ! (length candles - 2);
          instantChange = (c_close current - c_close prev) / c_close prev;
          bodySize = \<bar>c_close current - c_open current\<bar> / c_open current;
          strength = min 1 (\<bar>instantChange\<bar> * 2000 + bodySize * 100)
      in if instantChange > 0.0001 then (UP, strength)
         else if instantChange < - 0.0001 then (DOWN, strength)
         else (SIDEWAYS, 0))"

text \<open>The counting loop of \<^verbatim>\<open>calculateMomentum\<close>, carrying (upMoves, downMoves).\<close>

definition countMoves :: "candle list \<Rightarrow> nat \<times> nat" where
  "countMoves recent =
     foldl (\<lambda>(upMoves, downMoves) i.
              (let change = c_close (recent ! i) - c_close (recent ! (i - 1)) in
               if change > 0 then (upMoves + 1, downMoves)
               else if change < 0 then (upMoves, downMoves + 1)
               else (upMoves, downMoves)))
       (0, 0) [1..<length recent]"

text \<open>The result is (strength, direction).\<close>

definition calculateMomentum :: "candle list \<Rightarrow> real \<times> direction" where
  "calculateMomentum candles =
     (let recent = slice_last 3 candles;
          (upMoves, downMoves) = countMoves recent;
          strength = \<bar>real upMoves - real downMoves\<bar> / real (length recent);
          direction = (if upMoves > downMoves then UP
                       else if downMoves > upMoves then DOWN else NEUTRAL)
      in (strength, direction))"

text \<open>
  The loop of \<^verbatim>\<open>checkExitConditions\<close> over the entries of \<^verbatim>\<open>positions\<close>.  Every branch
  that changes the map returns at once, so the loop walks the entries as they were
  on entry.
\<close>

fun exit_loop ::
  "ScalpingStrategy \<Rightarrow> candle list \<Rightarrow> (string \<times> scalp_position) list \<Rightarrow>
     signal \<times> ScalpingStrategy" where
  "exit_loop s candles [] = (holdSignal (last candles), s)"
| "exit_loop s candles ((positionType, position) # rest) =
     (let currentCandle = last candles;
          priceChange = ((c_close currentCandle - p_entry position) / p_entry position) * 100;
          isLong = (positionType = ''LONG'');
          profit = (if isLong then priceChange else - priceChange);
          closed = s\<lparr>sc_positions := map_delete positionType (sc_positions s),
                     sc_recentTrades :=
                       sc_recentTrades s @ [(c_timestamp currentCandle, profit)]\<rparr>;
          exitSignal = (\<lambda>conf.
                          \<lparr>s_type = (if isLong then SELL else BUY),
                           s_price = c_close currentCandle,
                           s_timestamp = c_timestamp currentCandle,
                           s_confidence = Finite conf\<rparr>)
      in
        if profit \<ge> sc_quickProfitTarget s * 0.5 then (exitSignal 0.9, closed)
        else if real (p_candles position) \<ge> sc_maxHoldTime s \<and> profit \<le> 0
          then (exitSignal 0.7, closed)
        else
          (let (strength, momentumDirection) = calculateMomentum candles;
               momentumReversed = ((isLong \<and> momentumDirection = DOWN) \<or>
                                   (\<not> isLong \<and> momentumDirection = UP))
           in
             if momentumReversed \<and> p_candles position \<ge> 2 \<and>
                profit < sc_quickProfitTarget s * 0.5
               then (exitSignal 0.8, closed)
             else
               (let stopLoss = - sc_quickProfitTarget s * 2 in
                if profit \<le> stopLoss then (exitSignal 0.8, closed)
                else exit_loop s candles rest)))"

definition checkExitConditions ::
  "ScalpingStrategy \<Rightarrow> candle list \<Rightarrow> signal \<times> ScalpingStrategy" where
  "checkExitConditions s candles = exit_loop s candles (sc_positions s)"

definition getInstantScalpSignal ::
  "ScalpingStrategy \<Rightarrow> candle list \<Rightarrow> signal \<times> ScalpingStrategy" where
  "getInstantScalpSignal s candles =
     (let current = candles ! (length candles - 1);
          prev = candles ! (length candles - 2);
          prev2 = candles ! (length candles - 3);
          instantChange = (c_close current - c_close prev) / c_close prev;
          prevChange = (c_close prev - c_close prev2) / c_close prev2;
          volumeBoost = (c_volume current > c_volume prev * 1.1);
          significantMove = (\<bar>instantChange\<bar> > 0.0003);
          accelerating = (sgn instantChange = sgn prevChange \<and>
                          \<bar>instantChange\<bar> > \<bar>prevChange\<bar>)
      in
        if significantMove \<and> (accelerating \<or> volumeBoost) then
          (let sig = (if instantChange > 0 then BUY else SELL);
               positionType = (if sig = BUY then ''LONG'' else ''SHORT'')
           in (\<lparr>s_type = sig, s_price = c_close current,
                 s_timestamp = c_timestamp current, s_confidence = Finite 0.8\<rparr>,
               s\<lparr>sc_positions :=
                   map_set positionType
                     \<lparr>p_entry = c_close current, p_timestamp = c_timestamp current,
                      p_candles = 0\<rparr> (sc_positions s)\<rparr>))
        else (holdSignal current, s))"

definition checkEntryConditions ::
  "ScalpingStrategy \<Rightarrow> candle list \<Rightarrow> signal \<times> ScalpingStrategy" where
  "checkEntryConditions s candles =
     (let currentCandle = last candles in
      if length (sc_positions s) > 0 then (holdSignal currentCandle, s)
      else
        (let (instantSignal, s1) = getInstantScalpSignal s candles in
         if s_type instantSignal \<noteq> HOLD then (instantSignal, s1)
         else
           (let (priceDirection, priceStrength) = analyzePriceAction candles;
                (momentumStrength, momentumDirection) = calculateMomentum candles;
                volumeRatio = checkVolumeSpike s1 candles
            in
              if priceDirection = UP \<and> (volumeRatio \<or> momentumStrength > 0.2) then
                (\<lparr>s_type = BUY, s_price = c_close currentCandle,
                  s_timestamp = c_timestamp currentCandle, s_confidence = Finite 0.7\<rparr>,
                 s1\<lparr>sc_positions :=
                     map_set ''LONG''
                       \<lparr>p_entry = c_close currentCandle,
                        p_timestamp = c_timestamp currentCandle, p_candles = 0\<rparr>
                       (sc_positions s1)\<rparr>)
              else if priceDirection = DOWN \<and> (volumeRatio \<or> momentumStrength > 0.2) then
                (\<lparr>s_type = SELL, s_price = c_close currentCandle,
                  s_timestamp = c_timestamp currentCandle, s_confidence = Finite 0.7\<rparr>,
                 s1\<lparr>sc_positions :=
                     map_set ''SHORT''
                       \<lparr>p_entry = c_close currentCandle,
                        p_timestamp = c_timestamp currentCandle, p_candles = 0\<rparr>
                       (sc_positions s1)\<rparr>)
              else
                (\<lparr>s_type = HOLD, s_price = c_close currentCandle,
                  s_timestamp = c_timestamp currentCandle, s_confidence = Finite 0\<rparr>, s1))))"

definition scalp_analyze ::
  "ScalpingStrategy \<Rightarrow> candle list \<Rightarrow> error + signal \<times> ScalpingStrategy" where
  "scalp_analyze s candles =
     (if candles = [] then Inl TypeError
      else if length candles < sc_volatilityPeriod s + 5 then Inr (holdSignal (last candles), s)
      else
        (let currentCandle = last candles;
             s1 = updatePositions s;
             s2 = cleanOldTrades s1 (c_timestamp currentCandle);
             (exitSignal, s3) = checkExitConditions s2 candles
         in if s_type exitSignal \<noteq> HOLD then Inr (exitSignal, s3)
            else Inr (checkEntryConditions s3 candles)))"

subsection \<open>The six variants as one type\<close>

datatype strategy =
    MAC MovingAverageCrossover
  | RSI RSIStrategy
  | BBS BollingerBandsStrategy
  | MACD MACDStrategy
  | RSI_MA RSI_MA_ComboStrategy
  | Scalping ScalpingStrategy

text \<open>Lifting a variant's result into the common type.\<close>

definition lift_result ::
  "('a \<Rightarrow> strategy) \<Rightarrow> error + signal \<times> 'a \<Rightarrow> error + signal \<times> strategy" where
  "lift_result C r = (case r of Inl e \<Rightarrow> Inl e | Inr (sg, s') \<Rightarrow> Inr (sg, C s'))"

fun analyze :: "strategy \<Rightarrow> candle list \<Rightarrow> error + signal \<times> strategy" where
  "analyze (MAC s) candles = lift_result MAC (mac_analyze s candles)"
| "analyze (RSI s) candles = lift_result RSI (rsi_analyze s candles)"
| "analyze (BBS s) candles = lift_result BBS (bb_analyze s candles)"
| "analyze (MACD s) candles = lift_result MACD (macd_analyze s candles)"
| "analyze (RSI_MA s) candles = lift_result RSI_MA (combo_analyze s candles)"
| "analyze (Scalping s) candles = lift_result Scalping (scalp_analyze s candles)"

text \<open>
  \<^verbatim>\<open>getParameters().longPeriod\<close>: only the crossover passes a parameter of that name
  to the base constructor; for the others the property is \<^verbatim>\<open>undefined\<close>, here \<open>None\<close>.
\<close>

fun longPeriod_parameter :: "strategy \<Rightarrow> jsnum option" where
  "longPeriod_parameter (MAC s) = Some (mac_longPeriod s)"
| "longPeriod_parameter _ = None"

text \<open>
  Repeated calls on one instance: the signals in order with the fields after the last
  call, or the first exception.
\<close>

fun run ::
  "('st \<Rightarrow> candle list \<Rightarrow> error + signal \<times> 'st) \<Rightarrow> 'st \<Rightarrow> candle list list \<Rightarrow>
     error + signal list \<times> 'st" where
  "run an st [] = Inr ([], st)"
| "run an st (w # ws) =
     (case an st w of
        Inl e \<Rightarrow> Inl e
      | Inr (sg, st') \<Rightarrow>
          (case run an st' ws of
             Inl e \<Rightarrow> Inl e
           | Inr (sgs, st'') \<Rightarrow> Inr (sg # sgs, st'')))"

section \<open>Backtester\<close>

record trade =
  t_type :: signal_type
  t_price :: real
  t_timestamp :: int
  t_quantity :: jsnum

record backtest_result =
  totalTrades :: nat
  winningTrades :: nat
  losingTrades :: nat
  winRate :: real
  totalReturn :: jsnum
  maxDrawdown :: jsnum
  sharpeRatio :: real
  r_trades :: "trade list"

record backtester =
  initialBalance :: jsnum
  currentBalance :: jsnum
  position :: jsnum
  trades :: "trade list"
  maxBalance :: jsnum

definition new_backtester :: "jsnum \<Rightarrow> backtester" where
  "new_backtester initial =
     \<lparr>initialBalance = initial, currentBalance = initial, position = Finite 0,
      trades = [], maxBalance = initial\<rparr>"

definition reset :: "backtester \<Rightarrow> backtester" where
  "reset b =
     b\<lparr>currentBalance := initialBalance b, position := Finite 0, trades := [],
       maxBalance := initialBalance b\<rparr>"

text \<open>
  \<^verbatim>\<open>executeSignal(signal, candle)\<close> reads the signal and the fields of the instance; its
  second parameter is never read and is left out.
\<close>

definition executeSignal :: "backtester \<Rightarrow> signal \<Rightarrow> backtester" where
  "executeSignal b sg =
     (let price = Finite (s_price sg) in
      if s_type sg = BUY \<and> currentBalance b > Finite 100 \<and> position b = Finite 0 then
        (let quantity = (currentBalance b * Finite 0.95) / price in
         b\<lparr>position := quantity,
           currentBalance := currentBalance b * Finite 0.05,
           trades := trades b @
             [\<lparr>t_type = BUY, t_price = s_price sg, t_timestamp = s_timestamp sg,
               t_quantity = quantity\<rparr>]\<rparr>)
      else if s_type sg = SELL \<and> position b > Finite 0 then
        (let saleValue = position b * price;
             newBalance = currentBalance b + saleValue in
         b\<lparr>currentBalance := newBalance,
           trades := trades b @
             [\<lparr>t_type = SELL, t_price = s_price sg, t_timestamp = s_timestamp sg,
               t_quantity = position b\<rparr>],
           position := Finite 0,
           maxBalance := Math_max (maxBalance b) newBalance\<rparr>)
      else b)"

definition getTotalValue :: "backtester \<Rightarrow> real \<Rightarrow> jsnum" where
  "getTotalValue b currentPrice = currentBalance b + position b * Finite currentPrice"

text \<open>The pairing loop of \<^verbatim>\<open>calculateResults\<close>, carrying (winningTrades, losingTrades).\<close>

function pair_loop :: "trade list \<Rightarrow> trade list \<Rightarrow> nat \<Rightarrow> nat \<times> nat \<Rightarrow> nat \<times> nat" where
  "pair_loop buyTrades sellTrades i (w, l) =
     (if i < min (length buyTrades) (length sellTrades) then
        pair_loop buyTrades sellTrades (i + 1)
          (if t_price (sellTrades ! i) > t_price (buyTrades ! i) then (w + 1, l)
           else (w, l + 1))
      else (w, l))"
  by pat_completeness auto
termination
  by (relation "measure (\<lambda>(bs, ss, i, acc). min (length bs) (length ss) - i)") auto

declare pair_loop.simps [simp del]

definition calculateResults :: "backtester \<Rightarrow> backtest_result" where
  "calculateResults b =
     (let buyTrades = filter (\<lambda>t. t_type t = BUY) (trades b);
          sellTrades = filter (\<lambda>t. t_type t = SELL) (trades b);
          (wins, losses) = pair_loop buyTrades sellTrades 0 (0, 0);
          ret = ((currentBalance b - initialBalance b) / initialBalance b) * Finite 100;
          dd = ((maxBalance b - currentBalance b) / maxBalance b) * Finite 100;
          rate = (if length buyTrades > 0
                  then (real wins / real (length buyTrades)) * 100 else 0)
      in \<lparr>totalTrades = length buyTrades, winningTrades = wins, losingTrades = losses,
          winRate = rate, totalReturn = ret, maxDrawdown = dd, sharpeRatio = 0,
          r_trades = trades b\<rparr>)"

text \<open>
  A strategy object is its analyse method together with its mutable fields: \<open>an st w\<close>
  returns the signal and the fields after the call, or the exception it throws.
  \<open>lp\<close> is what \<^verbatim>\<open>getParameters().longPeriod\<close> yields, \<open>None\<close> when the strategy
  declares no such parameter.  The start index is \<^verbatim>\<open>longPeriod || 20\<close>: the operator
  takes its right operand when the left one is \<^verbatim>\<open>undefined\<close>, 0 or \<^verbatim>\<open>NaN\<close>.
\<close>

definition start_index :: "jsnum option \<Rightarrow> jsnum" where
  "start_index lp =
     (case lp of
        None \<Rightarrow> Finite 20
      | Some n \<Rightarrow> if n = Finite 0 \<or> n = NaN then Finite 20 else n)"

text \<open>
  The loop of \<^verbatim>\<open>backtest\<close>, with the index a number like any other.  Each round hands
  the strategy \<^verbatim>\<open>candles.slice(0, i + 1)\<close>, executes the answer when it is not HOLD and
  its confidence exceeds 0.1, and, when \<^verbatim>\<open>i % 200 === 0\<close>, reads \<^verbatim>\<open>candles[i].close\<close> for
  the progress line, which throws when there is no such candle.  From the index
  \<open>NegInf\<close> the loop never leaves its first window unless the strategy throws, so the
  result is an option: \<open>None\<close> when the loop does not end.
\<close>

partial_function (option) backtest_loop ::
  "('st \<Rightarrow> candle list \<Rightarrow> error + signal \<times> 'st) \<Rightarrow> candle list \<Rightarrow> jsnum \<Rightarrow> 'st \<Rightarrow>
     backtester \<Rightarrow> (error + 'st \<times> backtester) option" where
  "backtest_loop an candles i st b =
     (if i < Finite (real (length candles)) then
        (let historicalCandles = slice_to (i + Finite 1) candles in
         case an st historicalCandles of
           Inl e \<Rightarrow> Some (Inl e)
         | Inr (sg, st') \<Rightarrow>
             (let b' = (if s_type sg \<noteq> HOLD \<and> s_confidence sg > Finite 0.1
                        then executeSignal b sg else b)
              in if remainder_is_zero i 200 \<and> element candles i = None
                 then Some (Inl TypeError)
                 else backtest_loop an candles (i + Finite 1) st' b'))
      else Some (Inr (st, b)))"

text \<open>
  \<^verbatim>\<open>backtest\<close>: reset, the loop, the forced close of a remaining position; the value is
  the instance after the run (its fields are what \<^verbatim>\<open>calculateResults\<close> reads) with
  the strategy's fields.
\<close>

definition backtest_run ::
  "backtester \<Rightarrow> jsnum option \<Rightarrow> ('st \<Rightarrow> candle list \<Rightarrow> error + signal \<times> 'st) \<Rightarrow> 'st \<Rightarrow>
     candle list \<Rightarrow> (error + 'st \<times> backtester) option" where
  "backtest_run b0 lp an st candles =
     (case backtest_loop an candles (start_index lp) st (reset b0) of
        None \<Rightarrow> None
      | Some (Inl e) \<Rightarrow> Some (Inl e)
      | Some (Inr (st', b)) \<Rightarrow>
          if position b > Finite 0 then
            (if candles = [] then Some (Inl TypeError)
             else
               (let lastCandle = last candles in
                Some (Inr (st', executeSignal b
                  \<lparr>s_type = SELL, s_price = c_close lastCandle,
                   s_timestamp = c_timestamp lastCandle, s_confidence = Finite 1\<rparr>))))
          else Some (Inr (st', b)))"

definition backtest ::
  "backtester \<Rightarrow> jsnum option \<Rightarrow> ('st \<Rightarrow> candle list \<Rightarrow> error + signal \<times> 'st) \<Rightarrow> 'st \<Rightarrow>
     candle list \<Rightarrow> (error + backtest_result) option" where
  "backtest b0 lp an st candles =
     (case backtest_run b0 lp an st candles of
        None \<Rightarrow> None
      | Some (Inl e) \<Rightarrow> Some (Inl e)
      | Some (Inr (st', b)) \<Rightarrow> Some (Inr (calculateResults b)))"

section \<open>Notions used in the statements\<close>

text \<open>The minimum lookback the specification gives for each variant.\<close>

fun min_lookback :: "strategy \<Rightarrow> jsnum" where
  "min_lookback (MAC s) = mac_longPeriod s"
| "min_lookback (RSI s) = Finite (real (rsi_period s + 1))"
| "min_lookback (BBS s) = Finite (real (bb_period s))"
| "min_lookback (MACD s) = Finite (real (macd_slowPeriod s + macd_signalPeriod s + 5))"
| "min_lookback (RSI_MA s) =
     Finite (real (max (combo_rsiPeriod s) (combo_maLongPeriod s) + 5))"
| "min_lookback (Scalping s) = Finite (real (sc_volatilityPeriod s + 5))"

text \<open>The growing windows \<^verbatim>\<open>candles[0..i]\<close> for \<open>i\<close> from \<open>start\<close> to the end.\<close>

definition prefixes_from :: "nat \<Rightarrow> candle list \<Rightarrow> candle list list" where
  "prefixes_from start candles = map (\<lambda>i. take (i + 1) candles) [start..<length candles]"

text \<open>The condition under which the loop executes a signal.\<close>

definition executes :: "signal \<Rightarrow> bool" where
  "executes sg = (s_type sg \<noteq> HOLD \<and> s_confidence sg > Finite 0.1)"

definition execute_all :: "backtester \<Rightarrow> signal list \<Rightarrow> backtester" where
  "execute_all b sgs = foldl (\<lambda>b sg. if executes sg then executeSignal b sg else b) b sgs"

text \<open>The forced close after the loop.\<close>

definition close_remaining :: "candle list \<Rightarrow> backtester \<Rightarrow> backtester" where
  "close_remaining candles b =
     (if position b > Finite 0 then
        executeSignal b
          \<lparr>s_type = SELL, s_price = c_close (last candles),
           s_timestamp = c_timestamp (last candles), s_confidence = Finite 1\<rparr>
      else b)"

text \<open>
  Cash and its peak recomputed from the ledger alone: a BUY keeps 5% of the cash and
  leaves the peak, a SELL adds quantity times price and raises the peak to the new
  cash when that is larger.
\<close>

definition ledger_step :: "jsnum \<times> jsnum \<Rightarrow> trade \<Rightarrow> jsnum \<times> jsnum" where
  "ledger_step acc t =
     (case acc of (cash, peak) \<Rightarrow>
        if t_type t = BUY then (cash * Finite 0.05, peak)
        else (cash + t_quantity t * Finite (t_price t),
              Math_max peak (cash + t_quantity t * Finite (t_price t))))"

definition ledger_replay :: "jsnum \<Rightarrow> trade list \<Rightarrow> jsnum \<times> jsnum" where
  "ledger_replay initial ts = foldl ledger_step (initial, initial) ts"

definition replayed :: "backtester \<Rightarrow> bool" where
  "replayed b =
     (ledger_replay (initialBalance b) (trades b) = (currentBalance b, maxBalance b))"

text \<open>
  Proceeds and costs as the specification sums them: quantity times price over the
  recorded SELL, respectively BUY, trades.
\<close>

definition sell_proceeds :: "trade list \<Rightarrow> jsnum" where
  "sell_proceeds ts =
     foldl (\<lambda>sum t. sum + t_quantity t * Finite (t_price t)) (Finite 0)
       (filter (\<lambda>t. t_type t = SELL) ts)"

definition buy_costs :: "trade list \<Rightarrow> jsnum" where
  "buy_costs ts =
     foldl (\<lambda>sum t. sum + t_quantity t * Finite (t_price t)) (Finite 0)
       (filter (\<lambda>t. t_type t = BUY) ts)"

text \<open>
  What holds of the position and the ledger after every executed signal: the position
  is zero, positive or negative (never \<^verbatim>\<open>NaN\<close>); it is negative exactly when some
  recorded BUY did not buy a positive quantity; and the quantity of a recorded BUY
  has the sign of its price.
\<close>

definition position_sound :: "backtester \<Rightarrow> bool" where
  "position_sound b =
     ((position b = Finite 0 \<or> position b > Finite 0 \<or> position b < Finite 0) \<and>
      (position b < Finite 0) =
        (\<exists>t\<in>set (trades b). t_type t = BUY \<and> \<not> t_quantity t > Finite 0) \<and>
      (\<forall>t\<in>set (trades b). t_type t = BUY \<longrightarrow>
         (0 < t_price t \<longrightarrow> t_quantity t > Finite 0) \<and>
         (t_price t < 0 \<longrightarrow> t_quantity t < Finite 0)))"

text \<open>
  The win rate as the specification words it: the fraction of index-paired trades
  with a sell price above the buy price.
\<close>

definition win_fraction :: "trade list \<Rightarrow> real" where
  "win_fraction ts =
     (let pairs = zip (filter (\<lambda>t. t_type t = BUY) ts) (filter (\<lambda>t. t_type t = SELL) ts)
      in real (length (filter (\<lambda>(bt, sl). t_price sl > t_price bt) pairs))
           / real (length pairs))"

text \<open>
  The average loss of \<^verbatim>\<open>calculateRSI\<close>: the losses among the trailing changes over the
  period.
\<close>

definition avgLoss :: "nat \<Rightarrow> candle list \<Rightarrow> real" where
  "avgLoss period candles =
     snd (gainsLosses (slice_last period (closeChanges candles))) / real period"

text \<open>The five variants with a \<^verbatim>\<open>lastSignal\<close> field, and that field.\<close>

fun latched_variant :: "strategy \<Rightarrow> bool" where
  "latched_variant (Scalping s) = False"
| "latched_variant _ = True"

fun lastSignal_of :: "strategy \<Rightarrow> signal_type" where
  "lastSignal_of (MAC s) = mac_lastSignal s"
| "lastSignal_of (RSI s) = rsi_lastSignal s"
| "lastSignal_of (BBS s) = bb_lastSignal s"
| "lastSignal_of (MACD s) = macd_lastSignal s"
| "lastSignal_of (RSI_MA s) = combo_lastSignal s"
| "lastSignal_of (Scalping s) = HOLD"

text \<open>The types of the signals that are not HOLD, in order.\<close>

definition non_hold_types :: "signal list \<Rightarrow> signal_type list" where
  "non_hold_types sgs = filter (\<lambda>t. t \<noteq> HOLD) (map s_type sgs)"

text \<open>
  One call respects the latch: a HOLD leaves it, any other signal differs from it and
  becomes it.
\<close>

definition latch_step :: "signal_type \<Rightarrow> signal \<Rightarrow> signal_type \<Rightarrow> bool" where
  "latch_step before sg after =
     (if s_type sg = HOLD then after = before
      else s_type sg \<noteq> before \<and> after = s_type sg)"

text \<open>A candle whose four prices coincide, used for the concrete runs below.\<close>

definition flat_candle :: "int \<Rightarrow> real \<Rightarrow> real \<Rightarrow> candle" where
  "flat_candle t p v =
     \<lparr>c_timestamp = t, c_open = p, c_high = p, c_low = p, c_close = p, c_volume = v\<rparr>"

definition rising_candles :: "candle list" where
  "rising_candles =
     [flat_candle 1 3 10, flat_candle 2 3 10, flat_candle 3 5 10, flat_candle 4 6 10]"

definition negative_candles :: "candle list" where
  "negative_candles =
     [flat_candle 1 (- 3) 10, flat_candle 2 (- 3) 10, flat_candle 3 (- 1) 10]"

definition zero_candles :: "candle list" where
  "zero_candles =
     [flat_candle 1 (- 2) 10, flat_candle 2 (- 2) 10, flat_candle 3 0 10]"

definition turning_candles :: "candle list" where
  "turning_candles =
     [flat_candle 1 3 10, flat_candle 2 3 10, flat_candle 3 5 10, flat_candle 4 6 10,
      flat_candle 5 4 10]"

definition scalping_candles :: "candle list" where
  "scalping_candles =
     [flat_candle 1 100 100, flat_candle 2 100 100, flat_candle 3 100 100,
      flat_candle 4 100 100, flat_candle 5 100 100, flat_candle 6 101 200,
      flat_candle 7 100 100, flat_candle 8 99 100]"

definition scalper :: ScalpingStrategy where
  "scalper = new_ScalpingStrategy 0.02 1.5 0.15 5 1 0.1"

section \<open>Trade execution\<close>

text \<open>
  C4.  A BUY is taken only with more than 100 in cash and a position that is exactly
  0: the position becomes 95% of the cash divided by the signal price, the code's own
  quotient, 5% of the cash stays, and the trade is appended with that quantity.  A
  SELL is taken only with a positive position: the position times the signal price is
  added to the cash, the trade is appended, the position becomes 0 and the high-water
  mark becomes \<^verbatim>\<open>Math.max\<close> of itself and the new balance.  Every other signal leaves
  the instance as it was.
\<close>

theorem executeSignal_accepts:
  "(s_type sg = BUY \<and> currentBalance b > Finite 100 \<and> position b = Finite 0 \<longrightarrow>
      position (executeSignal b sg) = currentBalance b * Finite 0.95 / Finite (s_price sg) \<and>
      currentBalance (executeSignal b sg) = currentBalance b * Finite 0.05 \<and>
      trades (executeSignal b sg) = trades b @
        [\<lparr>t_type = BUY, t_price = s_price sg, t_timestamp = s_timestamp sg,
          t_quantity = currentBalance b * Finite 0.95 / Finite (s_price sg)\<rparr>] \<and>
      maxBalance (executeSignal b sg) = maxBalance b \<and>
      initialBalance (executeSignal b sg) = initialBalance b) \<and>
   (s_type sg = SELL \<and> position b > Finite 0 \<longrightarrow>
      position (executeSignal b sg) = Finite 0 \<and>
      currentBalance (executeSignal b sg) =
        currentBalance b + position b * Finite (s_price sg) \<and>
      trades (executeSignal b sg) = trades b @
        [\<lparr>t_type = SELL, t_price = s_price sg, t_timestamp = s_timestamp sg,
          t_quantity = position b\<rparr>] \<and>
      maxBalance (executeSignal b sg) =
        Math_max (maxBalance b) (currentBalance b + position b * Finite (s_price sg)) \<and>
      initialBalance (executeSignal b sg) = initialBalance b) \<and>
   (\<not> (s_type sg = BUY \<and> currentBalance b > Finite 100 \<and> position b = Finite 0) \<and>
    \<not> (s_type sg = SELL \<and> position b > Finite 0) \<longrightarrow>
      executeSignal b sg = b)"
  by (simp add: executeSignal_def Let_def)

theorem executeSignal_accepts_witness:
  "executeSignal (new_backtester (Finite 10000))
      \<lparr>s_type = BUY, s_price = 100, s_timestamp = 0, s_confidence = Finite 1\<rparr> =
     \<lparr>initialBalance = Finite 10000, currentBalance = Finite 500, position = Finite 95,
      trades = [\<lparr>t_type = BUY, t_price = 100, t_timestamp = 0, t_quantity = Finite 95\<rparr>],
      maxBalance = Finite 10000\<rparr> \<and>
   position (executeSignal (new_backtester (Finite 10000))
      \<lparr>s_type = BUY, s_price = 0, s_timestamp = 0, s_confidence = Finite 1\<rparr>) = PosInf \<and>
   currentBalance (executeSignal
      ((new_backtester (Finite 10000))\<lparr>currentBalance := Finite 500, position := Finite 95\<rparr>)
      \<lparr>s_type = SELL, s_price = 110, s_timestamp = 1, s_confidence = Finite 1\<rparr>) = Finite 10950 \<and>
   maxBalance (executeSignal
      ((new_backtester (Finite 10000))\<lparr>currentBalance := Finite 500, position := Finite 95\<rparr>)
      \<lparr>s_type = SELL, s_price = 110, s_timestamp = 1, s_confidence = Finite 1\<rparr>) = Finite 10950 \<and>
   executeSignal (new_backtester (Finite 10000))
      \<lparr>s_type = SELL, s_price = 110, s_timestamp = 1, s_confidence = Finite 1\<rparr>
     = new_backtester (Finite 10000)"
  using
    executeSignal_accepts [of "\<lparr>s_type = BUY, s_price = 100, s_timestamp = 0, s_confidence = Finite 1\<rparr>"
      "new_backtester (Finite 10000)"]
    executeSignal_accepts [of "\<lparr>s_type = BUY, s_price = 0, s_timestamp = 0, s_confidence = Finite 1\<rparr>"
      "new_backtester (Finite 10000)"]
    executeSignal_accepts [of "\<lparr>s_type = SELL, s_price = 110, s_timestamp = 1, s_confidence = Finite 1\<rparr>"
      "(new_backtester (Finite 10000))\<lparr>currentBalance := Finite 500, position := Finite 95\<rparr>"]
    executeSignal_accepts [of "\<lparr>s_type = SELL, s_price = 110, s_timestamp = 1, s_confidence = Finite 1\<rparr>"
      "new_backtester (Finite 10000)"]
  by (simp add: new_backtester_def Math_max_def)

section \<open>Warm-up\<close>

text \<open>
  C3.  On a non-empty window shorter than the variant's minimum lookback, each of the
  six strategies answers HOLD with confidence 0, price and timestamp of the last
  candle, and leaves its fields as they were.
\<close>

theorem analyze_warm_up:
  assumes "candles \<noteq> []" and "Finite (real (length candles)) < min_lookback st"
  shows "analyze st candles =
           Inr (\<lparr>s_type = HOLD, s_price = c_close (last candles),
                 s_timestamp = c_timestamp (last candles), s_confidence = Finite 0\<rparr>, st)"
proof (cases st)
  case (MAC s)
  with assms show ?thesis by (simp add: mac_analyze_def lift_result_def holdSignal_def)
next
  case (RSI s)
  with assms show ?thesis by (simp add: rsi_analyze_def lift_result_def holdSignal_def)
next
  case (BBS s)
  with assms show ?thesis by (simp add: bb_analyze_def lift_result_def holdSignal_def)
next
  case (MACD s)
  with assms show ?thesis by (simp add: macd_analyze_def lift_result_def holdSignal_def)
next
  case (RSI_MA s)
  with assms show ?thesis by (simp add: combo_analyze_def lift_result_def holdSignal_def)
next
  case (Scalping s)
  with assms show ?thesis by (simp add: scalp_analyze_def lift_result_def holdSignal_def)
qed

theorem analyze_warm_up_witness:
  "[flat_candle 1 100 5, flat_candle 2 101 5] \<noteq> [] \<and>
   Finite (real (length [flat_candle 1 100 5, flat_candle 2 101 5]))
     < min_lookback (RSI (new_RSIStrategy 14 30 70)) \<and>
   analyze (RSI (new_RSIStrategy 14 30 70)) [flat_candle 1 100 5, flat_candle 2 101 5] =
     Inr (\<lparr>s_type = HOLD, s_price = 101, s_timestamp = 2, s_confidence = Finite 0\<rparr>,
          RSI (new_RSIStrategy 14 30 70)) \<and>
   analyze (MAC (new_MovingAverageCrossover (Finite 1) PosInf))
       [flat_candle 1 100 5, flat_candle 2 101 5] =
     Inr (\<lparr>s_type = HOLD, s_price = 101, s_timestamp = 2, s_confidence = Finite 0\<rparr>,
          MAC (new_MovingAverageCrossover (Finite 1) PosInf))"
  using analyze_warm_up [of "[flat_candle 1 100 5, flat_candle 2 101 5]"
      "RSI (new_RSIStrategy 14 30 70)"]
    analyze_warm_up [of "[flat_candle 1 100 5, flat_candle 2 101 5]"
      "MAC (new_MovingAverageCrossover (Finite 1) PosInf)"]
  by (simp add: flat_candle_def new_RSIStrategy_def new_MovingAverageCrossover_def)

section \<open>Simulation loop\<close>

lemma prefixes_from_step:
  "i < length candles \<Longrightarrow>
     prefixes_from i candles = take (i + 1) candles # prefixes_from (i + 1) candles"
  by (simp add: prefixes_from_def upt_conv_Cons)

lemma prefixes_from_done: "\<not> i < length candles \<Longrightarrow> prefixes_from i candles = []"
  by (simp add: prefixes_from_def)

lemma relative_index_nonneg:
  "0 \<le> r \<Longrightarrow> relative_index (Finite r) len = min (nat \<lfloor>r\<rfloor>) len"
  by (simp add: toInteger_def)

lemma slice_to_nonneg:
  "0 \<le> r \<Longrightarrow> slice_to (Finite (r + 1)) xs = take (nat \<lfloor>r\<rfloor> + 1) xs"
proof -
  assume r: "0 \<le> r"
  then have "0 \<le> \<lfloor>r\<rfloor>" by simp
  then have n: "nat \<lfloor>r + 1\<rfloor> = nat \<lfloor>r\<rfloor> + 1" by (simp add: nat_add_distrib)
  from r have "0 \<le> r + 1" by simp
  then have "relative_index (Finite (r + 1)) (length xs) = min (nat \<lfloor>r + 1\<rfloor>) (length xs)"
    by (rule relative_index_nonneg)
  then show ?thesis
    unfolding slice_to_def n by (simp add: min_def)
qed

lemma floor_less_length: "0 \<le> r \<Longrightarrow> (r < real n) = (nat \<lfloor>r\<rfloor> < n)"
proof -
  assume r: "0 \<le> r"
  have "(r < real n) = (r < of_int (int n))" by simp
  also have "\<dots> = (\<lfloor>r\<rfloor> < int n)" by (rule floor_less_iff [symmetric])
  also have "\<dots> = (nat \<lfloor>r\<rfloor> < n)" using r by (simp add: nat_less_iff)
  finally show ?thesis .
qed

lemma progress_in_range:
  "0 \<le> r \<Longrightarrow> r < real (length xs) \<Longrightarrow>
     (remainder_is_zero (Finite r) 200 \<and> element xs (Finite r) = None) = False"
proof -
  assume r: "0 \<le> r" "r < real (length xs)"
  have "r = of_int \<lfloor>r\<rfloor>" if "r / 200 = of_int \<lfloor>r / 200\<rfloor>"
  proof -
    from that have "r = of_int (200 * \<lfloor>r / 200\<rfloor>)" by simp
    then show ?thesis by (metis floor_of_int)
  qed
  with r show ?thesis by auto
qed

lemma backtest_loop_step:
  assumes "0 \<le> r" and "r < real (length candles)"
  shows "backtest_loop an candles (Finite r) st b =
     (case an st (take (nat \<lfloor>r\<rfloor> + 1) candles) of
        Inl e \<Rightarrow> Some (Inl e)
      | Inr (sg, st') \<Rightarrow>
          backtest_loop an candles (Finite (r + 1)) st'
            (if executes sg then executeSignal b sg else b))"
  apply (subst backtest_loop.simps)
  using assms
  by (simp add: slice_to_nonneg progress_in_range executes_def Let_def
      del: remainder_is_zero.simps element.simps split: sum.splits prod.splits)

lemma backtest_loop_done:
  "\<not> i < Finite (real (length candles)) \<Longrightarrow> backtest_loop an candles i st b = Some (Inr (st, b))"
  by (subst backtest_loop.simps) simp

lemma backtest_loop_run:
  "0 \<le> r \<Longrightarrow>
   backtest_loop an candles (Finite r) st b =
     (case run an st (prefixes_from (nat \<lfloor>r\<rfloor>) candles) of
        Inl e \<Rightarrow> Some (Inl e)
      | Inr (sgs, st') \<Rightarrow> Some (Inr (st', execute_all b sgs)))"
proof (induction "length candles - nat \<lfloor>r\<rfloor>" arbitrary: r st b)
  case 0
  then have nl: "\<not> nat \<lfloor>r\<rfloor> < length candles" by simp
  with 0 have "\<not> r < real (length candles)" by (simp add: floor_less_length)
  with nl show ?case
    by (simp add: backtest_loop_done prefixes_from_done execute_all_def)
next
  case (Suc n)
  then have lt: "nat \<lfloor>r\<rfloor> < length candles" by simp
  with Suc.prems have rl: "r < real (length candles)" by (simp add: floor_less_length)
  have r1: "0 \<le> r + 1" using Suc.prems by simp
  have n1: "nat \<lfloor>r + 1\<rfloor> = nat \<lfloor>r\<rfloor> + 1" using Suc.prems by (simp add: nat_add_distrib)
  have m: "n = length candles - nat \<lfloor>r + 1\<rfloor>" using Suc.hyps(2) n1 by simp
  note ih = Suc.hyps(1) [OF m r1, unfolded n1]
  show ?case
    unfolding backtest_loop_step [OF Suc.prems rl] prefixes_from_step [OF lt]
    by (simp add: ih execute_all_def split: sum.splits prod.splits)
qed

text \<open>
  What holds before the loop and is kept by every executed signal holds after the
  loop, from whatever index it started.
\<close>

lemma backtest_loop_invariant_aux:
  fixes an :: "'st \<Rightarrow> candle list \<Rightarrow> error + signal \<times> 'st"
  assumes "\<And>b sg. Q b \<Longrightarrow> Q (executeSignal b sg)"
  shows "backtest_loop an candles i st b = Some y \<Longrightarrow>
           \<forall>s c. y = Inr (s, c) \<longrightarrow> Q b \<longrightarrow> Q c"
  apply (rule backtest_loop.raw_induct
      [where P = "\<lambda>an candles i st b y. \<forall>s c. y = Inr (s, c) \<longrightarrow> Q b \<longrightarrow> Q c"
         and an = an and candles = candles and i = i and st = st and b = b and y = y])
  subgoal premises prems for loop an candles i st b y
  proof (intro allI impI)
    fix st' b'
    assume y: "y = Inr (st', b')" and p: "Q b"
    show "Q b'"
    proof (cases "i < Finite (real (length candles))")
      case False
      with prems(3) y p show ?thesis by simp
    next
      case True
      with prems(3) y obtain sg st1 where
        l: "loop an candles (i + Finite 1) st1
              (if s_type sg \<noteq> HOLD \<and> s_confidence sg > Finite 0.1
               then executeSignal b sg else b) = Some (Inr (st', b'))"
        by (auto simp add: Let_def split: sum.splits prod.splits if_splits)
      have "Q (if s_type sg \<noteq> HOLD \<and> s_confidence sg > Finite 0.1
               then executeSignal b sg else b)"
        using p assms by simp
      with prems(2) [OF l] show ?thesis by simp
    qed
  qed
  by assumption

lemma backtest_loop_invariant:
  assumes "backtest_loop an candles i st b = Some (Inr (st', b'))"
    and "Q b"
    and "\<And>b sg. Q b \<Longrightarrow> Q (executeSignal b sg)"
  shows "Q b'"
  using backtest_loop_invariant_aux [of Q, OF assms(3) assms(1)] assms(2) by blast


lemma backtest_run_cases:
  assumes "backtest_run b0 lp an st candles = Some (Inr (st', b))"
  obtains b1 where "backtest_loop an candles (start_index lp) st (reset b0) = Some (Inr (st', b1))"
    and "b = close_remaining candles b1"
  using assms
  by (auto simp add: backtest_run_def close_remaining_def Let_def
      split: option.splits sum.splits prod.splits if_splits)

lemma backtest_run_invariant:
  assumes "backtest_run b0 lp an st candles = Some (Inr (st', b))"
    and "Q (reset b0)"
    and "\<And>b sg. Q b \<Longrightarrow> Q (executeSignal b sg)"
  shows "Q b"
proof -
  from assms(1) obtain b1 where
    l: "backtest_loop an candles (start_index lp) st (reset b0) = Some (Inr (st', b1))"
    and b: "b = close_remaining candles b1"
    by (rule backtest_run_cases)
  from backtest_loop_invariant [OF l assms(2,3)] have "Q b1" .
  then show ?thesis using assms(3) by (simp add: b close_remaining_def)
qed

lemma backtest_run_execute_all:
  assumes "start_index lp = Finite r" and "0 \<le> r"
  shows "backtest_run b0 lp an st candles =
     (case run an st (prefixes_from (nat \<lfloor>r\<rfloor>) candles) of
        Inl e \<Rightarrow> Some (Inl e)
      | Inr (sgs, st') \<Rightarrow>
          Some (Inr (st', close_remaining candles (execute_all (reset b0) sgs))))"
proof (cases "candles = []")
  case True
  then show ?thesis
    by (simp add: backtest_run_def assms backtest_loop_run prefixes_from_def
        close_remaining_def execute_all_def reset_def Let_def)
next
  case False
  then show ?thesis
    by (simp add: backtest_run_def assms backtest_loop_run close_remaining_def Let_def
        split: sum.splits prod.splits)
qed

lemma backtest_run_never_entered:
  assumes "start_index lp = PosInf"
  shows "backtest_run b0 lp an st candles = Some (Inr (st, reset b0))"
  by (simp add: backtest_run_def assms backtest_loop_done reset_def)

text \<open>Every \<^verbatim>\<open>analyze\<close> throws on the empty window.\<close>

lemma analyze_empty: "analyze st [] = Inl TypeError"
  by (cases st)
     (simp_all add: lift_result_def mac_analyze_def rsi_analyze_def bb_analyze_def
       macd_analyze_def combo_analyze_def scalp_analyze_def)

lemma slice_to_empty:
  "- 2 < r \<Longrightarrow> r < 0 \<Longrightarrow> slice_to (Finite (r + 1)) xs = []"
proof -
  assume r: "- 2 < r" "r < 0"
  have "toInteger (r + 1) = 0"
  proof (cases "0 \<le> r + 1")
    case True
    with r have "\<lfloor>r + 1\<rfloor> = 0" by (intro floor_unique) simp_all
    with True show ?thesis by (simp add: toInteger_def)
  next
    case False
    with r have "\<lfloor>- (r + 1)\<rfloor> = 0" by (intro floor_unique) simp_all
    with False show ?thesis by (simp add: toInteger_def)
  qed
  then show ?thesis by (simp add: slice_to_def)
qed

lemma backtest_loop_negative_bounded:
  "r < 0 \<Longrightarrow> - r \<le> real n \<Longrightarrow>
     backtest_loop analyze candles (Finite r) st b = Some (Inl TypeError)"
proof (induction n arbitrary: r st b)
  case 0
  then show ?case by simp
next
  case (Suc n)
  have lt: "Finite r < Finite (real (length candles))" using Suc.prems(1) by simp
  show ?case
  proof (cases "- 2 < r")
    case True
    from True Suc.prems(1) have "slice_to (Finite (r + 1)) candles = []" by (rule slice_to_empty)
    with lt show ?thesis
      by (subst backtest_loop.simps) (simp add: analyze_empty)
  next
    case False
    then have "r + 1 < 0" "- (r + 1) \<le> real n" using Suc.prems(2) by simp_all
    then have ih: "\<And>st b. backtest_loop analyze candles (Finite (r + 1)) st b = Some (Inl TypeError)"
      by (rule Suc.IH)
    show ?thesis
    proof (cases "analyze st (slice_to (Finite (r + 1)) candles)")
      case (Inl e)
      then have "backtest_loop analyze candles (Finite r) st b = Some (Inl e)"
        using lt by (subst backtest_loop.simps) simp
      then show ?thesis by (cases e) simp
    next
      case (Inr p)
      obtain sg st1 where p: "p = (sg, st1)" by (cases p)
      from Inr p lt show ?thesis
        by (subst backtest_loop.simps)
           (simp add: ih Let_def del: remainder_is_zero.simps element.simps)
    qed
  qed
qed

lemma backtest_loop_negative:
  assumes "r < 0"
  shows "backtest_loop analyze candles (Finite r) st b = Some (Inl TypeError)"
proof -
  have "- r \<le> real (nat \<lceil>- r\<rceil>)" by linarith
  with assms show ?thesis by (rule backtest_loop_negative_bounded)
qed

lemma backtest_loop_NegInf: "backtest_loop analyze candles NegInf st b = Some (Inl TypeError)"
  by (subst backtest_loop.simps) (simp add: slice_to_def analyze_empty)

lemma backtest_run_negative:
  assumes "start_index lp = NegInf \<or> (\<exists>r. start_index lp = Finite r \<and> r < 0)"
  shows "backtest_run b0 lp analyze st candles = Some (Inl TypeError)"
  using assms
  by (auto simp add: backtest_run_def backtest_loop_negative backtest_loop_NegInf)

text \<open>From a finite start that is not negative the backtest returns or throws.\<close>

lemma backtest_run_returns:
  assumes "start_index lp = Finite r" and "0 \<le> r"
  shows "\<exists>y. backtest_run b0 lp an st candles = Some y"
  unfolding backtest_run_execute_all [OF assms]
  by (simp split: sum.splits prod.splits)

text \<open>
  From the index \<open>NegInf\<close>, with a strategy that answers on the empty window, the loop
  does not end.
\<close>

lemma backtest_loop_NegInf_aux:
  fixes an :: "'st \<Rightarrow> candle list \<Rightarrow> error + signal \<times> 'st"
  assumes "\<And>st. \<exists>sg st'. an st [] = Inr (sg, st')"
  shows "backtest_loop an candles i st b = Some y \<Longrightarrow> i \<noteq> NegInf"
  apply (rule backtest_loop.raw_induct
      [where P = "\<lambda>a cs i st b y. a = an \<longrightarrow> i \<noteq> NegInf"
         and an = an and candles = candles and i = i and st = st and b = b and y = y,
       THEN mp, OF _ _ refl])
  subgoal premises prems for loop a cs i st b y
  proof (intro impI notI)
    assume a: "a = an" and i: "i = NegInf"
    from assms [of st] obtain sg st1 where s: "an st [] = Inr (sg, st1)" by blast
    from prems(3) obtain b1 y1 where "loop an cs NegInf st1 b1 = Some y1"
      unfolding a i
      by (simp add: slice_to_def s Let_def)
    from prems(2) [OF this] show False by simp
  qed
  by assumption

lemma backtest_loop_NegInf_diverges:
  assumes "\<And>st. \<exists>sg st'. an st [] = Inr (sg, st')"
  shows "backtest_loop an candles NegInf st b = None"
proof (cases "backtest_loop an candles NegInf st b")
  case (Some y)
  from backtest_loop_NegInf_aux [OF assms Some] show ?thesis by simp
qed simp

text \<open>The definitions a concrete run of the crossover unfolds.\<close>

lemmas mac_eval =
  lift_result_def mac_analyze_def calculateMA_def slice_from_def toInteger_def
  minus_jsnum_def Math_max_def Math_min_def Let_def new_MovingAverageCrossover_def
  flat_candle_def holdSignal_def

text \<open>A crossover run on four candles: one BUY at 5, closed by force at 6.\<close>

lemma run_analyze_rising:
  "run analyze (MAC (new_MovingAverageCrossover (Finite 1) (Finite 2)))
       (prefixes_from 2 rising_candles) =
     Inr ([\<lparr>s_type = BUY, s_price = 5, s_timestamp = 3, s_confidence = Finite 0.9\<rparr>,
           \<lparr>s_type = HOLD, s_price = 6, s_timestamp = 4, s_confidence = Finite 0\<rparr>],
          MAC \<lparr>mac_shortPeriod = Finite 1, mac_longPeriod = Finite 2, mac_lastSignal = BUY\<rparr>)"
  by (simp add: prefixes_from_def rising_candles_def upt_conv_Cons mac_eval)

lemma run_rising:
  "backtest_run (new_backtester (Finite 10000)) (Some (Finite 2)) analyze
     (MAC (new_MovingAverageCrossover (Finite 1) (Finite 2))) rising_candles =
   Some (Inr (MAC \<lparr>mac_shortPeriod = Finite 1, mac_longPeriod = Finite 2, mac_lastSignal = BUY\<rparr>,
        \<lparr>initialBalance = Finite 10000, currentBalance = Finite 11900, position = Finite 0,
         trades = [\<lparr>t_type = BUY, t_price = 5, t_timestamp = 3, t_quantity = Finite 1900\<rparr>,
                   \<lparr>t_type = SELL, t_price = 6, t_timestamp = 4, t_quantity = Finite 1900\<rparr>],
         maxBalance = Finite 11900\<rparr>))"
proof -
  have s: "start_index (Some (Finite 2)) = Finite 2" by (simp add: start_index_def)
  have c: "rising_candles \<noteq> [] \<and> last rising_candles = flat_candle 4 6 10"
    by (simp add: rising_candles_def)
  show ?thesis
    unfolding backtest_run_execute_all [OF s, simplified]
    by (simp add: run_analyze_rising execute_all_def executes_def executeSignal_def
        close_remaining_def reset_def new_backtester_def c flat_candle_def Math_max_def Let_def)
qed

text \<open>
  C6, as the code has it.  The loop starts at the declared long period when the
  strategy declares one that is neither 0 nor \<^verbatim>\<open>NaN\<close>, and at 20 otherwise.  From a
  finite start that is not negative, the loop hands the strategy, on one instance,
  the prefixes \<^verbatim>\<open>candles[0..i]\<close> for the whole indices from the start (rounded down) to
  the end, and executes an answer exactly when it is not HOLD and its confidence
  exceeds 0.1; an exception of the strategy ends the run; after the loop a remaining
  position is closed at the last close.  From the start \<open>PosInf\<close> the loop is never
  entered.  From a negative start the windows are cut from the end of the series,
  the last of them is empty, and with any of the six strategies the run ends in a
  \<^verbatim>\<open>TypeError\<close>.
\<close>

theorem backtest_run_characterisation:
  "(let start = (case lp of
                   None \<Rightarrow> Finite 20
                 | Some p \<Rightarrow> if p = Finite 0 \<or> p = NaN then Finite 20 else p)
    in
      (\<forall>r. start = Finite r \<and> 0 \<le> r \<longrightarrow>
         backtest_run b0 lp an st candles =
           (case run an st (prefixes_from (nat \<lfloor>r\<rfloor>) candles) of
              Inl e \<Rightarrow> Some (Inl e)
            | Inr (sgs, st') \<Rightarrow>
                Some (Inr (st', close_remaining candles
                       (foldl (\<lambda>b sg.
                                 if s_type sg \<noteq> HOLD \<and> s_confidence sg > Finite 0.1
                                 then executeSignal b sg else b)
                          (reset b0) sgs))))) \<and>
      (start = PosInf \<longrightarrow> backtest_run b0 lp an st candles = Some (Inr (st, reset b0))) \<and>
      (start = NegInf \<or> (\<exists>r. start = Finite r \<and> r < 0) \<longrightarrow>
         backtest_run b0 lp analyze s candles = Some (Inl TypeError)))"
proof -
  have 1: "backtest_run b0 lp an st candles =
           (case run an st (prefixes_from (nat \<lfloor>r\<rfloor>) candles) of
              Inl e \<Rightarrow> Some (Inl e)
            | Inr (sgs, st') \<Rightarrow>
                Some (Inr (st', close_remaining candles
                       (foldl (\<lambda>b sg.
                                 if s_type sg \<noteq> HOLD \<and> s_confidence sg > Finite 0.1
                                 then executeSignal b sg else b)
                          (reset b0) sgs))))"
    if "start_index lp = Finite r" "0 \<le> r" for r
    unfolding backtest_run_execute_all [OF that] execute_all_def executes_def
    by (rule refl)
  show ?thesis
    unfolding Let_def start_index_def [symmetric]
    using 1 backtest_run_never_entered [of lp b0 an st candles]
      backtest_run_negative [of lp b0 s candles]
    by blast
qed

theorem backtest_run_characterisation_witness:
  "backtest_run (new_backtester (Finite 10000)) (Some (Finite 2)) analyze
     (MAC (new_MovingAverageCrossover (Finite 1) (Finite 2))) rising_candles =
   Some (Inr (MAC \<lparr>mac_shortPeriod = Finite 1, mac_longPeriod = Finite 2, mac_lastSignal = BUY\<rparr>,
        \<lparr>initialBalance = Finite 10000, currentBalance = Finite 11900, position = Finite 0,
         trades = [\<lparr>t_type = BUY, t_price = 5, t_timestamp = 3, t_quantity = Finite 1900\<rparr>,
                   \<lparr>t_type = SELL, t_price = 6, t_timestamp = 4, t_quantity = Finite 1900\<rparr>],
         maxBalance = Finite 11900\<rparr>)) \<and>
   backtest_run (new_backtester (Finite 10000)) (Some (Finite 2.5)) analyze
     (MAC (new_MovingAverageCrossover (Finite 1) (Finite 2))) rising_candles =
   backtest_run (new_backtester (Finite 10000)) (Some (Finite 2)) analyze
     (MAC (new_MovingAverageCrossover (Finite 1) (Finite 2))) rising_candles \<and>
   backtest_run (new_backtester (Finite 10000)) (Some PosInf) analyze
     (MAC (new_MovingAverageCrossover (Finite 1) PosInf)) rising_candles =
   Some (Inr (MAC (new_MovingAverageCrossover (Finite 1) PosInf),
              new_backtester (Finite 10000))) \<and>
   backtest_run (new_backtester (Finite 10000)) (Some (Finite (- 1))) analyze
     (MAC (new_MovingAverageCrossover (Finite 1) (Finite (- 1)))) rising_candles =
   Some (Inl TypeError)"
proof -
  have c: "rising_candles \<noteq> [] \<and> last rising_candles = flat_candle 4 6 10"
    by (simp add: rising_candles_def)
  have a: "backtest_run (new_backtester (Finite 10000)) (Some (Finite 2)) analyze
     (MAC (new_MovingAverageCrossover (Finite 1) (Finite 2))) rising_candles =
   Some (Inr (MAC \<lparr>mac_shortPeriod = Finite 1, mac_longPeriod = Finite 2, mac_lastSignal = BUY\<rparr>,
        \<lparr>initialBalance = Finite 10000, currentBalance = Finite 11900, position = Finite 0,
         trades = [\<lparr>t_type = BUY, t_price = 5, t_timestamp = 3, t_quantity = Finite 1900\<rparr>,
                   \<lparr>t_type = SELL, t_price = 6, t_timestamp = 4, t_quantity = Finite 1900\<rparr>],
         maxBalance = Finite 11900\<rparr>))"
    using backtest_run_characterisation [of "Some (Finite 2)" "new_backtester (Finite 10000)"
        analyze "MAC (new_MovingAverageCrossover (Finite 1) (Finite 2))" rising_candles]
    by (simp add: run_analyze_rising executeSignal_def close_remaining_def reset_def
        new_backtester_def c flat_candle_def Math_max_def Let_def)
  have b: "backtest_run (new_backtester (Finite 10000)) (Some (Finite 2.5)) analyze
     (MAC (new_MovingAverageCrossover (Finite 1) (Finite 2))) rising_candles =
   Some (Inr (MAC \<lparr>mac_shortPeriod = Finite 1, mac_longPeriod = Finite 2, mac_lastSignal = BUY\<rparr>,
        \<lparr>initialBalance = Finite 10000, currentBalance = Finite 11900, position = Finite 0,
         trades = [\<lparr>t_type = BUY, t_price = 5, t_timestamp = 3, t_quantity = Finite 1900\<rparr>,
                   \<lparr>t_type = SELL, t_price = 6, t_timestamp = 4, t_quantity = Finite 1900\<rparr>],
         maxBalance = Finite 11900\<rparr>))"
    using backtest_run_characterisation [of "Some (Finite 2.5)" "new_backtester (Finite 10000)"
        analyze "MAC (new_MovingAverageCrossover (Finite 1) (Finite 2))" rising_candles,
        unfolded Let_def, THEN conjunct1, rule_format, of "5 / 2"]
    by (simp add: run_analyze_rising executeSignal_def close_remaining_def reset_def
        new_backtester_def c flat_candle_def Math_max_def Let_def)
  have d: "backtest_run (new_backtester (Finite 10000)) (Some PosInf) analyze
     (MAC (new_MovingAverageCrossover (Finite 1) PosInf)) rising_candles =
   Some (Inr (MAC (new_MovingAverageCrossover (Finite 1) PosInf),
              new_backtester (Finite 10000)))"
    using backtest_run_characterisation [of "Some PosInf" "new_backtester (Finite 10000)"
        analyze "MAC (new_MovingAverageCrossover (Finite 1) PosInf)" rising_candles]
    by (simp add: reset_def new_backtester_def Let_def)
  have e: "backtest_run (new_backtester (Finite 10000)) (Some (Finite (- 1))) analyze
     (MAC (new_MovingAverageCrossover (Finite 1) (Finite (- 1)))) rising_candles =
   Some (Inl TypeError)"
    using backtest_run_characterisation [of "Some (Finite (- 1))" "new_backtester (Finite 10000)"
        analyze "MAC (new_MovingAverageCrossover (Finite 1) (Finite (- 1)))" rising_candles
        "MAC (new_MovingAverageCrossover (Finite 1) (Finite (- 1)))"]
    by (simp add: Let_def)
  from a b d e show ?thesis by simp
qed

text \<open>
  The specification takes the declared long period whenever there is one, and feeds
  prefixes from there.  A declared long period of 0 or \<^verbatim>\<open>NaN\<close> is falsy for \<^verbatim>\<open>||\<close> and
  starts the loop at 20; a declared long period of -2 starts it at -2, where the
  first window is \<^verbatim>\<open>candles.slice(0, -1)\<close> and the run throws.
\<close>

theorem start_index_counterexample:
  "start_index (longPeriod_parameter (MAC (new_MovingAverageCrossover (Finite 0) (Finite 0))))
     = Finite 20 \<and>
   start_index (longPeriod_parameter (MAC (new_MovingAverageCrossover (Finite 1) NaN)))
     = Finite 20 \<and>
   start_index (longPeriod_parameter (MAC (new_MovingAverageCrossover (Finite 1) (Finite (- 2)))))
     = Finite (- 2) \<and>
   slice_to (Finite (- 2) + Finite 1) rising_candles = take 3 rising_candles \<and>
   backtest_run (new_backtester (Finite 10000))
     (longPeriod_parameter (MAC (new_MovingAverageCrossover (Finite 1) (Finite (- 2))))) analyze
     (MAC (new_MovingAverageCrossover (Finite 1) (Finite (- 2)))) rising_candles =
   Some (Inl TypeError)"
  using backtest_run_negative [of "Some (Finite (- 2))" "new_backtester (Finite 10000)"
      "MAC (new_MovingAverageCrossover (Finite 1) (Finite (- 2)))" rising_candles]
  by (simp add: start_index_def new_MovingAverageCrossover_def slice_to_def toInteger_def
      rising_candles_def)

section \<open>Ledger and position\<close>

text \<open>Cash and peak are what replaying the ledger gives, at every moment of a run.\<close>

lemma replayed_reset: "replayed (reset b)"
  by (simp add: replayed_def reset_def ledger_replay_def)

lemma replayed_executeSignal: "replayed b \<Longrightarrow> replayed (executeSignal b sg)"
  by (auto simp add: replayed_def executeSignal_def Let_def ledger_replay_def ledger_step_def)

lemma initialBalance_executeSignal [simp]:
  "initialBalance (executeSignal b sg) = initialBalance b"
  by (simp add: executeSignal_def Let_def)

lemma replayed_backtest_run:
  assumes "backtest_run b0 lp an st candles = Some (Inr (st', b))"
  shows "replayed b \<and> initialBalance b = initialBalance b0"
  using assms
proof (rule backtest_run_invariant)
  show "replayed (reset b0) \<and> initialBalance (reset b0) = initialBalance b0"
    by (simp add: replayed_reset) (simp add: reset_def)
next
  fix b sg
  assume "replayed b \<and> initialBalance b = initialBalance b0"
  then show "replayed (executeSignal b sg) \<and> initialBalance (executeSignal b sg) = initialBalance b0"
    by (simp add: replayed_executeSignal)
qed

lemma positive_not_negative: "Finite 0 < x \<Longrightarrow> \<not> x < Finite 0"
  by (cases x) simp_all

lemma buy_quantity:
  assumes "Finite 100 < cb"
  shows "(cb * Finite 0.95 / Finite p = Finite 0 \<or> Finite 0 < cb * Finite 0.95 / Finite p \<or>
          cb * Finite 0.95 / Finite p < Finite 0) \<and>
         (cb * Finite 0.95 / Finite p < Finite 0) = (\<not> Finite 0 < cb * Finite 0.95 / Finite p) \<and>
         (0 < p \<longrightarrow> Finite 0 < cb * Finite 0.95 / Finite p) \<and>
         (p < 0 \<longrightarrow> cb * Finite 0.95 / Finite p < Finite 0)"
proof (cases cb)
  case (Finite x)
  with assms have "0 < x * 0.95" by simp
  then show ?thesis
    unfolding Finite
    by (cases "p = 0") (auto simp add: zero_less_divide_iff divide_less_0_iff)
qed (use assms in simp_all)

lemma position_sound_reset: "position_sound (reset b)"
  by (simp add: position_sound_def reset_def)

lemma position_sound_executeSignal:
  assumes "position_sound b"
  shows "position_sound (executeSignal b sg)"
proof (cases "s_type sg = BUY \<and> currentBalance b > Finite 100 \<and> position b = Finite 0")
  case True
  with assms have none: "\<not> (\<exists>t\<in>set (trades b). t_type t = BUY \<and> \<not> t_quantity t > Finite 0)"
    by (simp add: position_sound_def)
  from assms have signs: "\<forall>t\<in>set (trades b). t_type t = BUY \<longrightarrow>
         (0 < t_price t \<longrightarrow> t_quantity t > Finite 0) \<and>
         (t_price t < 0 \<longrightarrow> t_quantity t < Finite 0)"
    by (simp add: position_sound_def)
  from True have q: "executeSignal b sg =
      b\<lparr>position := currentBalance b * Finite 0.95 / Finite (s_price sg),
        currentBalance := currentBalance b * Finite 0.05,
        trades := trades b @
          [\<lparr>t_type = BUY, t_price = s_price sg, t_timestamp = s_timestamp sg,
            t_quantity = currentBalance b * Finite 0.95 / Finite (s_price sg)\<rparr>]\<rparr>"
    by (simp add: executeSignal_def Let_def)
  from True have "Finite 100 < currentBalance b" by simp
  from buy_quantity [OF this, of "s_price sg"] none signs show ?thesis
    unfolding q position_sound_def by auto
next
  case False
  show ?thesis
  proof (cases "s_type sg = SELL \<and> position b > Finite 0")
    case True
    then have "\<not> position b < Finite 0" by (simp add: positive_not_negative)
    with assms have "\<not> (\<exists>t\<in>set (trades b). t_type t = BUY \<and> \<not> t_quantity t > Finite 0)"
      by (simp add: position_sound_def)
    moreover from assms have "\<forall>t\<in>set (trades b). t_type t = BUY \<longrightarrow>
         (0 < t_price t \<longrightarrow> t_quantity t > Finite 0) \<and>
         (t_price t < 0 \<longrightarrow> t_quantity t < Finite 0)"
      by (simp add: position_sound_def)
    ultimately show ?thesis using True False
      by (auto simp add: position_sound_def executeSignal_def Let_def)
  next
    case nosell: False
    with False have "executeSignal b sg = b" by (auto simp add: executeSignal_def Let_def)
    with assms show ?thesis by simp
  qed
qed

lemma position_after_close:
  assumes "position_sound b1"
  shows "(position (close_remaining candles b1) = Finite 0) =
         (\<forall>t\<in>set (trades (close_remaining candles b1)).
            t_type t = BUY \<longrightarrow> t_quantity t > Finite 0)"
proof (cases "position b1 > Finite 0")
  case True
  then have "\<not> position b1 < Finite 0" by (simp add: positive_not_negative)
  with assms have "\<not> (\<exists>t\<in>set (trades b1). t_type t = BUY \<and> \<not> t_quantity t > Finite 0)"
    by (simp add: position_sound_def)
  with True show ?thesis
    by (auto simp add: close_remaining_def executeSignal_def Let_def)
next
  case False
  with assms show ?thesis
    by (auto simp add: close_remaining_def position_sound_def)
qed

lemma position_sound_close: "position_sound b \<Longrightarrow> position_sound (close_remaining candles b)"
  by (simp add: close_remaining_def position_sound_executeSignal)

text \<open>
  C1, as the code has it.  When a backtest returns, its cash is the initial balance
  carried through the recorded trades in order: a recorded BUY leaves 5% of the cash,
  a recorded SELL adds its quantity times its price.  The position is exactly 0 if
  and only if every recorded BUY bought a positive quantity; a BUY recorded at a
  positive price did, and one recorded at a negative price bought a negative
  quantity.
\<close>

theorem backtest_balance_and_position:
  assumes "backtest_run b0 lp an st candles = Some (Inr (st', b))"
  shows "currentBalance b = fst (ledger_replay (initialBalance b0) (trades b)) \<and>
         (position b = Finite 0) =
           (\<forall>t\<in>set (trades b). t_type t = BUY \<longrightarrow> t_quantity t > Finite 0) \<and>
         (\<forall>t\<in>set (trades b). t_type t = BUY \<longrightarrow>
            (0 < t_price t \<longrightarrow> t_quantity t > Finite 0) \<and>
            (t_price t < 0 \<longrightarrow> t_quantity t < Finite 0))"
proof -
  from replayed_backtest_run [OF assms]
  have "currentBalance b = fst (ledger_replay (initialBalance b0) (trades b))"
    by (auto simp add: replayed_def)
  moreover
  from assms obtain b1 where
    l: "backtest_loop an candles (start_index lp) st (reset b0) = Some (Inr (st', b1))"
    and b: "b = close_remaining candles b1"
    by (rule backtest_run_cases)
  have s1: "position_sound b1"
    using l position_sound_reset position_sound_executeSignal
    by (rule backtest_loop_invariant)
  from position_after_close [OF this, of candles]
  have "(position b = Finite 0) =
           (\<forall>t\<in>set (trades b). t_type t = BUY \<longrightarrow> t_quantity t > Finite 0)"
    by (simp add: b)
  moreover
  from position_sound_close [OF s1, of candles]
  have "\<forall>t\<in>set (trades b). t_type t = BUY \<longrightarrow>
            (0 < t_price t \<longrightarrow> t_quantity t > Finite 0) \<and>
            (t_price t < 0 \<longrightarrow> t_quantity t < Finite 0)"
    by (simp add: b position_sound_def)
  ultimately show ?thesis by simp
qed

theorem backtest_balance_and_position_witness:
  "backtest_run (new_backtester (Finite 10000)) (Some (Finite 2)) analyze
     (MAC (new_MovingAverageCrossover (Finite 1) (Finite 2))) rising_candles =
   Some (Inr (MAC \<lparr>mac_shortPeriod = Finite 1, mac_longPeriod = Finite 2, mac_lastSignal = BUY\<rparr>,
        \<lparr>initialBalance = Finite 10000, currentBalance = Finite 11900, position = Finite 0,
         trades = [\<lparr>t_type = BUY, t_price = 5, t_timestamp = 3, t_quantity = Finite 1900\<rparr>,
                   \<lparr>t_type = SELL, t_price = 6, t_timestamp = 4, t_quantity = Finite 1900\<rparr>],
         maxBalance = Finite 11900\<rparr>)) \<and>
   fst (ledger_replay (Finite 10000)
          [\<lparr>t_type = BUY, t_price = 5, t_timestamp = 3, t_quantity = Finite 1900\<rparr>,
           \<lparr>t_type = SELL, t_price = 6, t_timestamp = 4, t_quantity = Finite 1900\<rparr>])
     = Finite 11900"
  using backtest_balance_and_position [OF run_rising] run_rising
  by (simp add: new_backtester_def)

text \<open>
  Two crossover runs.  On closes -3, -3, -1 the BUY at -1 buys the quantity -9500,
  which neither a SELL nor the forced close accepts.  On closes -2, -2, 0 the BUY at 0
  buys an infinite quantity, and the forced close at 0 adds \<open>PosInf\<close> times 0 to the
  cash.
\<close>

lemma run_negative:
  "backtest_run (new_backtester (Finite 10000)) (Some (Finite 2)) analyze
     (MAC (new_MovingAverageCrossover (Finite 1) (Finite 2))) negative_candles =
   Some (Inr (MAC \<lparr>mac_shortPeriod = Finite 1, mac_longPeriod = Finite 2, mac_lastSignal = BUY\<rparr>,
        \<lparr>initialBalance = Finite 10000, currentBalance = Finite 500, position = Finite (- 9500),
         trades = [\<lparr>t_type = BUY, t_price = - 1, t_timestamp = 3,
                    t_quantity = Finite (- 9500)\<rparr>],
         maxBalance = Finite 10000\<rparr>))"
proof -
  have s: "start_index (Some (Finite 2)) = Finite 2" by (simp add: start_index_def)
  have r: "run analyze (MAC (new_MovingAverageCrossover (Finite 1) (Finite 2)))
       (prefixes_from 2 negative_candles) =
     Inr ([\<lparr>s_type = BUY, s_price = - 1, s_timestamp = 3, s_confidence = Finite 0.9\<rparr>],
          MAC \<lparr>mac_shortPeriod = Finite 1, mac_longPeriod = Finite 2, mac_lastSignal = BUY\<rparr>)"
    by (simp add: prefixes_from_def negative_candles_def upt_conv_Cons mac_eval)
  show ?thesis
    unfolding backtest_run_execute_all [OF s, simplified]
    by (simp add: r execute_all_def executes_def executeSignal_def
        close_remaining_def reset_def new_backtester_def Let_def)
qed

lemma run_zero:
  "backtest_run (new_backtester (Finite 10000)) (Some (Finite 2)) analyze
     (MAC (new_MovingAverageCrossover (Finite 1) (Finite 2))) zero_candles =
   Some (Inr (MAC \<lparr>mac_shortPeriod = Finite 1, mac_longPeriod = Finite 2, mac_lastSignal = BUY\<rparr>,
        \<lparr>initialBalance = Finite 10000, currentBalance = NaN, position = Finite 0,
         trades = [\<lparr>t_type = BUY, t_price = 0, t_timestamp = 3, t_quantity = PosInf\<rparr>,
                   \<lparr>t_type = SELL, t_price = 0, t_timestamp = 3, t_quantity = PosInf\<rparr>],
         maxBalance = NaN\<rparr>))"
proof -
  have s: "start_index (Some (Finite 2)) = Finite 2" by (simp add: start_index_def)
  have c: "zero_candles \<noteq> [] \<and> last zero_candles = flat_candle 3 0 10"
    by (simp add: zero_candles_def)
  have r: "run analyze (MAC (new_MovingAverageCrossover (Finite 1) (Finite 2)))
       (prefixes_from 2 zero_candles) =
     Inr ([\<lparr>s_type = BUY, s_price = 0, s_timestamp = 3, s_confidence = Finite 0.9\<rparr>],
          MAC \<lparr>mac_shortPeriod = Finite 1, mac_longPeriod = Finite 2, mac_lastSignal = BUY\<rparr>)"
    by (simp add: prefixes_from_def zero_candles_def upt_conv_Cons mac_eval)
  show ?thesis
    unfolding backtest_run_execute_all [OF s, simplified]
    by (simp add: r execute_all_def executes_def executeSignal_def
        close_remaining_def reset_def new_backtester_def Let_def c flat_candle_def Math_max_def)
qed

text \<open>
  The specification has the position at 0 after every backtest, and the final balance
  equal to the initial balance plus the proceeds and minus the costs read off the
  ledger.  The first run ends with position -9500; the second ends with a balance
  that is \<^verbatim>\<open>NaN\<close>, which equals nothing.
\<close>

theorem backtest_conservation_counterexample:
  "backtest_run (new_backtester (Finite 10000)) (Some (Finite 2)) analyze
     (MAC (new_MovingAverageCrossover (Finite 1) (Finite 2))) negative_candles =
   Some (Inr (MAC \<lparr>mac_shortPeriod = Finite 1, mac_longPeriod = Finite 2, mac_lastSignal = BUY\<rparr>,
        \<lparr>initialBalance = Finite 10000, currentBalance = Finite 500, position = Finite (- 9500),
         trades = [\<lparr>t_type = BUY, t_price = - 1, t_timestamp = 3,
                    t_quantity = Finite (- 9500)\<rparr>],
         maxBalance = Finite 10000\<rparr>)) \<and>
   backtest_run (new_backtester (Finite 10000)) (Some (Finite 2)) analyze
     (MAC (new_MovingAverageCrossover (Finite 1) (Finite 2))) zero_candles =
   Some (Inr (MAC \<lparr>mac_shortPeriod = Finite 1, mac_longPeriod = Finite 2, mac_lastSignal = BUY\<rparr>,
        \<lparr>initialBalance = Finite 10000, currentBalance = NaN, position = Finite 0,
         trades = [\<lparr>t_type = BUY, t_price = 0, t_timestamp = 3, t_quantity = PosInf\<rparr>,
                   \<lparr>t_type = SELL, t_price = 0, t_timestamp = 3, t_quantity = PosInf\<rparr>],
         maxBalance = NaN\<rparr>)) \<and>
   \<not> strict_equal NaN
       (Finite 10000
        + sell_proceeds
            [\<lparr>t_type = BUY, t_price = 0, t_timestamp = 3, t_quantity = PosInf\<rparr>,
             \<lparr>t_type = SELL, t_price = 0, t_timestamp = 3, t_quantity = PosInf\<rparr>]
        - buy_costs
            [\<lparr>t_type = BUY, t_price = 0, t_timestamp = 3, t_quantity = PosInf\<rparr>,
             \<lparr>t_type = SELL, t_price = 0, t_timestamp = 3, t_quantity = PosInf\<rparr>])"
  by (simp add: run_negative run_zero strict_equal_def)

section \<open>Metrics\<close>

lemma pair_loop_count:
  "pair_loop bs ss i (w, l) =
     (w + length (filter (\<lambda>(bt, sl). t_price sl > t_price bt) (drop i (zip bs ss))),
      l + length (filter (\<lambda>(bt, sl). \<not> t_price sl > t_price bt) (drop i (zip bs ss))))"
proof (induction bs ss i "(w, l)" arbitrary: w l rule: pair_loop.induct)
  case (1 bs ss i w l)
  show ?case
  proof (cases "i < min (length bs) (length ss)")
    case False
    then have "length (zip bs ss) \<le> i" by (simp add: min_def split: if_splits)
    then have "drop i (zip bs ss) = []" by (rule drop_all)
    with False show ?thesis by (auto simp add: pair_loop.simps [of bs ss i w l])
  next
    case True
    then have d: "drop i (zip bs ss) = (bs ! i, ss ! i) # drop (Suc i) (zip bs ss)"
      by (simp add: Cons_nth_drop_Suc [symmetric])
    show ?thesis
    proof (cases "t_price (ss ! i) > t_price (bs ! i)")
      case w: True
      then have "pair_loop bs ss (i + 1) (w + 1, l) =
          (w + 1 + length (filter (\<lambda>(bt, sl). t_price sl > t_price bt) (drop (i + 1) (zip bs ss))),
           l + length (filter (\<lambda>(bt, sl). \<not> t_price sl > t_price bt) (drop (i + 1) (zip bs ss))))"
        using 1 [OF True, of "w + 1" l] by simp
      with True w show ?thesis
        by (simp add: pair_loop.simps [of bs ss i w l] d)
    next
      case nw: False
      then have "pair_loop bs ss (i + 1) (w, l + 1) =
          (w + length (filter (\<lambda>(bt, sl). t_price sl > t_price bt) (drop (i + 1) (zip bs ss))),
           l + 1 + length (filter (\<lambda>(bt, sl). \<not> t_price sl > t_price bt) (drop (i + 1) (zip bs ss))))"
        using 1 [OF True, of w "l + 1"] by simp
      with True nw show ?thesis
        by (simp add: pair_loop.simps [of bs ss i w l] d)
    qed
  qed
qed

text \<open>
  C5, as the code has it.  For a backtest that returns: totalTrades counts the BUY
  trades of the ledger; winningTrades counts the index-paired trades that sold above
  the buy price and losingTrades the other pairs; winRate is 100 times winningTrades
  over the number of BUY trades, and 0 when there is none; totalReturn and maxDrawdown
  are the stated percentages of the final cash against the initial balance and the
  peak; the peak is the running maximum of the initial balance and the cash after each
  SELL; sharpeRatio is 0.
\<close>

theorem backtest_metrics:
  assumes "backtest b0 lp an st candles = Some (Inr r)"
  shows "\<exists>st' b. backtest_run b0 lp an st candles = Some (Inr (st', b)) \<and>
     (let buys = filter (\<lambda>t. t_type t = BUY) (trades b);
          sells = filter (\<lambda>t. t_type t = SELL) (trades b);
          wins = length (filter (\<lambda>(bt, sl). t_price sl > t_price bt) (zip buys sells))
      in totalTrades r = length buys \<and>
         winningTrades r = wins \<and>
         losingTrades r = length (zip buys sells) - wins \<and>
         winRate r = (if buys = [] then 0 else real wins / real (length buys) * 100) \<and>
         totalReturn r =
           (currentBalance b - initialBalance b0) / initialBalance b0 * Finite 100 \<and>
         maxDrawdown r = (maxBalance b - currentBalance b) / maxBalance b * Finite 100 \<and>
         (currentBalance b, maxBalance b) = ledger_replay (initialBalance b0) (trades b) \<and>
         sharpeRatio r = 0 \<and>
         r_trades r = trades b)"
proof -
  from assms obtain st' b where
    run: "backtest_run b0 lp an st candles = Some (Inr (st', b))" and r: "r = calculateResults b"
    by (auto simp add: backtest_def split: option.splits sum.splits prod.splits)
  from replayed_backtest_run [OF run]
  have ib: "initialBalance b = initialBalance b0" and "replayed b"
    by simp_all
  then have rp: "ledger_replay (initialBalance b0) (trades b) = (currentBalance b, maxBalance b)"
    by (simp add: replayed_def)
  let ?buys = "filter (\<lambda>t. t_type t = BUY) (trades b)"
  let ?sells = "filter (\<lambda>t. t_type t = SELL) (trades b)"
  let ?P = "\<lambda>(bt, sl). t_price sl > t_price bt"
  have "filter (\<lambda>(bt, sl). \<not> t_price sl > t_price bt) (zip ?buys ?sells)
          = filter (\<lambda>x. \<not> ?P x) (zip ?buys ?sells)"
    by (simp add: case_prod_unfold)
  then have losses:
    "length (filter (\<lambda>(bt, sl). \<not> t_price sl > t_price bt) (zip ?buys ?sells))
       = length (zip ?buys ?sells) - length (filter ?P (zip ?buys ?sells))"
    using sum_length_filter_compl [of ?P "zip ?buys ?sells"] by arith
  have pl: "pair_loop ?buys ?sells 0 (0, 0) =
      (length (filter ?P (zip ?buys ?sells)),
       length (zip ?buys ?sells) - length (filter ?P (zip ?buys ?sells)))"
    using losses by (simp add: pair_loop_count)
  show ?thesis
    apply (rule exI [of _ st'], rule exI [of _ b])
    using pl
    by (simp add: run r calculateResults_def Let_def rp ib)
qed

theorem backtest_metrics_witness:
  "backtest (new_backtester (Finite 10000)) (Some (Finite 2)) analyze
      (MAC (new_MovingAverageCrossover (Finite 1) (Finite 2))) rising_candles =
   Some (Inr \<lparr>totalTrades = 1, winningTrades = 1, losingTrades = 0, winRate = 100,
        totalReturn = Finite 19, maxDrawdown = Finite 0, sharpeRatio = 0,
        r_trades = [\<lparr>t_type = BUY, t_price = 5, t_timestamp = 3, t_quantity = Finite 1900\<rparr>,
                    \<lparr>t_type = SELL, t_price = 6, t_timestamp = 4, t_quantity = Finite 1900\<rparr>]\<rparr>)"
proof -
  have r: "backtest (new_backtester (Finite 10000)) (Some (Finite 2)) analyze
      (MAC (new_MovingAverageCrossover (Finite 1) (Finite 2))) rising_candles =
   Some (Inr \<lparr>totalTrades = 1, winningTrades = 1, losingTrades = 0, winRate = 100,
        totalReturn = Finite 19, maxDrawdown = Finite 0, sharpeRatio = 0,
        r_trades = [\<lparr>t_type = BUY, t_price = 5, t_timestamp = 3, t_quantity = Finite 1900\<rparr>,
                    \<lparr>t_type = SELL, t_price = 6, t_timestamp = 4, t_quantity = Finite 1900\<rparr>]\<rparr>)"
    using run_rising
    by (simp add: backtest_def calculateResults_def pair_loop.simps Let_def minus_jsnum_def)
  from backtest_metrics [OF r] r show ?thesis by simp
qed

text \<open>
  The specification makes winRate the fraction itself; on the run above the
  fraction is 1 and winRate is 100.
\<close>

theorem winRate_counterexample:
  "(case backtest (new_backtester (Finite 10000)) (Some (Finite 2)) analyze
           (MAC (new_MovingAverageCrossover (Finite 1) (Finite 2))) rising_candles of
      Some (Inr r) \<Rightarrow> winRate r = 100 \<and> win_fraction (r_trades r) = 1
    | _ \<Rightarrow> False)"
  using run_rising
  by (simp add: backtest_def calculateResults_def win_fraction_def pair_loop.simps Let_def)

section \<open>RSI\<close>

lemma gainsLosses_fold_nonneg:
  "0 \<le> (g :: real) \<Longrightarrow> 0 \<le> (l :: real) \<Longrightarrow>
     0 \<le> fst (foldl (\<lambda>(gains, losses) change.
              if change > 0 then (gains + change, losses) else (gains, losses + \<bar>change\<bar>))
            (g, l) xs) \<and>
     0 \<le> snd (foldl (\<lambda>(gains, losses) change.
              if change > 0 then (gains + change, losses) else (gains, losses + \<bar>change\<bar>))
            (g, l) xs)"
proof (induction xs arbitrary: g l)
  case Nil
  then show ?case by simp
next
  case (Cons a xs)
  show ?case
  proof (cases "a > 0")
    case True
    with Cons.prems have "0 \<le> g + a" by simp
    from Cons.IH [OF this Cons.prems(2)] True show ?thesis by simp
  next
    case False
    with Cons.prems have "0 \<le> l + \<bar>a\<bar>" by simp
    from Cons.IH [OF Cons.prems(1) this] False show ?thesis by simp
  qed
qed

lemma gainsLosses_nonneg: "0 \<le> fst (gainsLosses xs) \<and> 0 \<le> snd (gainsLosses xs)"
  unfolding gainsLosses_def by (rule gainsLosses_fold_nonneg) simp_all

lemma rsi_formula_range:
  fixes g l :: real
  assumes "0 \<le> g" and "0 < l"
  shows "0 \<le> 100 - 100 / (1 + g / l) \<and> 100 - 100 / (1 + g / l) \<le> 100"
proof -
  from assms have "0 \<le> g / l" by simp
  then have "1 \<le> 1 + g / l" by simp
  then have "100 / (1 + g / l) \<le> 100 / 1" and "0 < 100 / (1 + g / l)"
    by (intro divide_left_mono, simp_all)
  then show ?thesis by simp
qed

text \<open>
  C7, as the code has it.  For a period of at least 1 the value of \<^verbatim>\<open>calculateRSI\<close> lies
  between 0 and 100 on every window; on a window of at least period + 1 candles it
  is exactly 100 whenever the average loss over the trailing period of changes is 0;
  on a shorter window it is the constant 50.
\<close>

theorem calculateRSI_range:
  assumes "0 < period"
  shows "0 \<le> calculateRSI period candles \<and> calculateRSI period candles \<le> 100 \<and>
         (period + 1 \<le> length candles \<and> avgLoss period candles = 0 \<longrightarrow>
            calculateRSI period candles = 100) \<and>
         (length candles < period + 1 \<longrightarrow> calculateRSI period candles = 50)"
proof (cases "length candles < period + 1")
  case True
  then show ?thesis by (simp add: calculateRSI_def)
next
  case False
  obtain g l where gl: "gainsLosses (slice_last period (closeChanges candles)) = (g, l)"
    by (cases "gainsLosses (slice_last period (closeChanges candles))")
  with gainsLosses_nonneg [of "slice_last period (closeChanges candles)"]
  have g: "0 \<le> g" and l: "0 \<le> l" by simp_all
  show ?thesis
  proof (cases "l = 0")
    case True
    with False gl show ?thesis by (simp add: calculateRSI_def avgLoss_def)
  next
    case nz: False
    with l assms have lp: "0 < l / real period" by simp
    from g assms have gp: "0 \<le> g / real period" by simp
    from rsi_formula_range [OF gp lp] False gl nz assms show ?thesis
      by (simp add: calculateRSI_def avgLoss_def Let_def)
  qed
qed

theorem calculateRSI_range_witness:
  "(0 :: nat) < 2 \<and>
   avgLoss 2 [flat_candle 1 100 5, flat_candle 2 101 5, flat_candle 3 102 5] = 0 \<and>
   calculateRSI 2 [flat_candle 1 100 5, flat_candle 2 101 5, flat_candle 3 102 5] = 100 \<and>
   calculateRSI 2 [flat_candle 1 102 5, flat_candle 2 101 5, flat_candle 3 103 5] = 200 / 3 \<and>
   calculateRSI 2 [flat_candle 1 100 5, flat_candle 2 99 5] = 50"
  using
    calculateRSI_range [of 2 "[flat_candle 1 100 5, flat_candle 2 101 5, flat_candle 3 102 5]"]
    calculateRSI_range [of 2 "[flat_candle 1 102 5, flat_candle 2 101 5, flat_candle 3 103 5]"]
    calculateRSI_range [of 2 "[flat_candle 1 100 5, flat_candle 2 99 5]"]
  by (simp add: avgLoss_def gainsLosses_def slice_last_def closeChanges_def flat_candle_def
      calculateRSI_def upt_conv_Cons)

text \<open>
  The specification reaches 100 on every window without losses; two rising candles
  with period 2 have no loss and the value 50.
\<close>

theorem calculateRSI_short_window_counterexample:
  "avgLoss 2 [flat_candle 1 100 5, flat_candle 2 101 5] = 0 \<and>
   calculateRSI 2 [flat_candle 1 100 5, flat_candle 2 101 5] = 50"
  by (simp add: avgLoss_def gainsLosses_def slice_last_def closeChanges_def flat_candle_def
      calculateRSI_def upt_conv_Cons)

section \<open>The first window of the crossover\<close>










section \<open>Confidence\<close>

text \<open>
  C8.  The Bollinger confidence is \<^verbatim>\<open>Math.min\<close> of 0.9 and a quotient by the band, with no
  lower bound.  With period 2, half a standard deviation and the closes -1, -3 the
  lower band is -2.5, the answer is BUY and its confidence is -2, outside the
  interval from 0 to 1 that the \<^verbatim>\<open>Signal\<close> interface documents.
\<close>

theorem bollinger_confidence_negative:
  "analyze (BBS (new_BollingerBandsStrategy 2 0.5))
     [flat_candle 1 (- 1) 10, flat_candle 2 (- 3) 10] =
   Inr (\<lparr>s_type = BUY, s_price = - 3, s_timestamp = 2, s_confidence = Finite (- 2)\<rparr>,
        BBS \<lparr>bb_period = 2, bb_standardDeviations = 0.5, bb_lastSignal = BUY\<rparr>)"
  by (simp add: lift_result_def bb_analyze_def calculateBollingerBands_def slice_last_def
      new_BollingerBandsStrategy_def flat_candle_def Let_def power2_eq_square Math_min_def)

text \<open>
  The same happens on positive closes with a negative number of standard deviations,
  which puts the upper band below zero.
\<close>

lemma bollinger_negative_deviations:
  "analyze (BBS \<lparr>bb_period = 2, bb_standardDeviations = - 3, bb_lastSignal = BUY\<rparr>)
     [flat_candle 1 3 10, flat_candle 2 1 10] =
   Inr (\<lparr>s_type = SELL, s_price = 1, s_timestamp = 2, s_confidence = Finite (- 20)\<rparr>,
        BBS \<lparr>bb_period = 2, bb_standardDeviations = - 3, bb_lastSignal = SELL\<rparr>)"
  by (simp add: lift_result_def bb_analyze_def calculateBollingerBands_def slice_last_def
      flat_candle_def Let_def power2_eq_square Math_min_def)

section \<open>Latch\<close>

lemma mac_latch:
  "mac_analyze s w = Inr (sg, s') \<Longrightarrow> latch_step (mac_lastSignal s) sg (mac_lastSignal s')"
  by (auto simp add: mac_analyze_def latch_step_def Let_def holdSignal_def split: if_splits)

lemma rsi_latch:
  "rsi_analyze s w = Inr (sg, s') \<Longrightarrow> latch_step (rsi_lastSignal s) sg (rsi_lastSignal s')"
  by (auto simp add: rsi_analyze_def latch_step_def Let_def holdSignal_def split: if_splits)

lemma bb_latch:
  "bb_analyze s w = Inr (sg, s') \<Longrightarrow> latch_step (bb_lastSignal s) sg (bb_lastSignal s')"
  by (auto simp add: bb_analyze_def latch_step_def Let_def holdSignal_def
      split: if_splits prod.splits)

lemma macd_latch:
  "macd_analyze s w = Inr (sg, s') \<Longrightarrow> latch_step (macd_lastSignal s) sg (macd_lastSignal s')"
  by (auto simp add: macd_analyze_def latch_step_def Let_def holdSignal_def
      split: if_splits prod.splits sum.splits option.splits)

lemma ladder_latch:
  fixes em :: "signal_type \<Rightarrow> real \<Rightarrow> signal \<times> RSI_MA_ComboStrategy"
  assumes em: "\<And>ty c. s_type (fst (em ty c)) = ty \<and> combo_lastSignal (snd (em ty c)) = ty"
    and h: "s_type (fst hold) = HOLD \<and> combo_lastSignal (snd hold) = L"
  shows "latch_step L
     (fst (if r \<and> m \<and> L \<noteq> BUY then em BUY c1
           else if r \<and> t \<and> L \<noteq> BUY then em BUY c2
           else if m \<and> q \<and> L \<noteq> BUY then em BUY c3
           else if d \<and> x \<and> L \<noteq> SELL then em SELL c4
           else if d \<and> u \<and> L \<noteq> SELL then em SELL c5
           else if x \<and> v \<and> L \<noteq> SELL then em SELL c6
           else hold))
     (combo_lastSignal
       (snd (if r \<and> m \<and> L \<noteq> BUY then em BUY c1
           else if r \<and> t \<and> L \<noteq> BUY then em BUY c2
           else if m \<and> q \<and> L \<noteq> BUY then em BUY c3
           else if d \<and> x \<and> L \<noteq> SELL then em SELL c4
           else if d \<and> u \<and> L \<noteq> SELL then em SELL c5
           else if x \<and> v \<and> L \<noteq> SELL then em SELL c6
           else hold)))"
  using em h by (auto simp add: latch_step_def)

lemma combo_decide_latch:
  "latch_step (combo_lastSignal s)
     (fst (combo_decide s cd rsi prevRSI shortMA longMA prevShortMA prevLongMA))
     (combo_lastSignal (snd (combo_decide s cd rsi prevRSI shortMA longMA prevShortMA prevLongMA)))"
  unfolding combo_decide_def Let_def
  by (rule ladder_latch) simp_all

lemma combo_latch:
  "combo_analyze s w = Inr (sg, s') \<Longrightarrow>
     latch_step (combo_lastSignal s) sg (combo_lastSignal s')"
proof -
  assume a: "combo_analyze s w = Inr (sg, s')"
  show ?thesis
  proof (cases "length w < max (combo_rsiPeriod s) (combo_maLongPeriod s) + 5")
    case True
    with a show ?thesis
      by (auto simp add: combo_analyze_def holdSignal_def latch_step_def split: if_splits)
  next
    case False
    with a obtain rsi prevRSI shortMA longMA prevShortMA prevLongMA where
      "combo_decide s (last w) rsi prevRSI shortMA longMA prevShortMA prevLongMA = (sg, s')"
      by (auto simp add: combo_analyze_def Let_def split: if_splits sum.splits)
    with combo_decide_latch [of s "last w" rsi prevRSI shortMA longMA prevShortMA prevLongMA]
    show ?thesis by simp
  qed
qed

lemma analyze_latch_step:
  assumes "latched_variant st" and "analyze st w = Inr (sg, st')"
  shows "latched_variant st' \<and> latch_step (lastSignal_of st) sg (lastSignal_of st')"
proof (cases st)
  case (MAC s)
  with assms(2) show ?thesis
    by (auto simp add: lift_result_def split: sum.splits dest: mac_latch)
next
  case (RSI s)
  with assms(2) show ?thesis
    by (auto simp add: lift_result_def split: sum.splits dest: rsi_latch)
next
  case (BBS s)
  with assms(2) show ?thesis
    by (auto simp add: lift_result_def split: sum.splits dest: bb_latch)
next
  case (MACD s)
  with assms(2) show ?thesis
    by (auto simp add: lift_result_def split: sum.splits dest: macd_latch)
next
  case (RSI_MA s)
  with assms(2) show ?thesis
    by (auto simp add: lift_result_def split: sum.splits dest: combo_latch)
next
  case (Scalping s)
  with assms(1) show ?thesis by simp
qed

lemma run_latched:
  assumes "latched_variant st" and "run analyze st ws = Inr (sgs, st')"
  shows "distinct_adj (non_hold_types sgs) \<and>
         (non_hold_types sgs \<noteq> [] \<longrightarrow> hd (non_hold_types sgs) \<noteq> lastSignal_of st)"
  using assms
proof (induction ws arbitrary: st sgs)
  case Nil
  then show ?case by (simp add: non_hold_types_def)
next
  case (Cons w ws)
  from Cons.prems(2) obtain sg st1 sgs1 where
    a: "analyze st w = Inr (sg, st1)" and r: "run analyze st1 ws = Inr (sgs1, st')"
    and sgs: "sgs = sg # sgs1"
    by (auto split: sum.splits prod.splits)
  from analyze_latch_step [OF Cons.prems(1) a]
  have l1: "latched_variant st1" and step: "latch_step (lastSignal_of st) sg (lastSignal_of st1)"
    by simp_all
  from Cons.IH [OF l1 r]
  have ih: "distinct_adj (non_hold_types sgs1)"
    "non_hold_types sgs1 \<noteq> [] \<longrightarrow> hd (non_hold_types sgs1) \<noteq> lastSignal_of st1"
    by simp_all
  show ?case
  proof (cases "s_type sg = HOLD")
    case True
    with step ih sgs show ?thesis by (simp add: non_hold_types_def latch_step_def)
  next
    case False
    with step have "s_type sg \<noteq> lastSignal_of st" "lastSignal_of st1 = s_type sg"
      by (simp_all add: latch_step_def)
    with ih sgs False show ?thesis
      by (auto simp add: non_hold_types_def distinct_adj_Cons)
  qed
qed

lemma run_turning:
  "run analyze (MAC (new_MovingAverageCrossover (Finite 1) (Finite 2))) (prefixes_from 2 turning_candles) =
     Inr ([\<lparr>s_type = BUY, s_price = 5, s_timestamp = 3, s_confidence = Finite 0.9\<rparr>,
           \<lparr>s_type = HOLD, s_price = 6, s_timestamp = 4, s_confidence = Finite 0\<rparr>,
           \<lparr>s_type = SELL, s_price = 4, s_timestamp = 5, s_confidence = Finite 0.9\<rparr>],
          MAC \<lparr>mac_shortPeriod = Finite 1, mac_longPeriod = Finite 2, mac_lastSignal = SELL\<rparr>)"
  by (simp add: prefixes_from_def turning_candles_def upt_conv_Cons mac_eval)

text \<open>
  C2, as the code has it.  For the five strategies with a \<^verbatim>\<open>lastSignal\<close> field
  (crossover, RSI, Bollinger, MACD, combination) and every sequence of calls on one
  instance that returns, no two signals other than HOLD that follow each other are
  of the same type.
\<close>

theorem latch_invariant:
  assumes "latched_variant st" and "run analyze st ws = Inr (sgs, st')"
  shows "distinct_adj (non_hold_types sgs)"
  using run_latched [OF assms] by simp

theorem latch_invariant_witness:
  "latched_variant (MAC (new_MovingAverageCrossover (Finite 1) (Finite 2))) \<and>
   run analyze (MAC (new_MovingAverageCrossover (Finite 1) (Finite 2))) (prefixes_from 2 turning_candles) =
     Inr ([\<lparr>s_type = BUY, s_price = 5, s_timestamp = 3, s_confidence = Finite 0.9\<rparr>,
           \<lparr>s_type = HOLD, s_price = 6, s_timestamp = 4, s_confidence = Finite 0\<rparr>,
           \<lparr>s_type = SELL, s_price = 4, s_timestamp = 5, s_confidence = Finite 0.9\<rparr>],
          MAC \<lparr>mac_shortPeriod = Finite 1, mac_longPeriod = Finite 2, mac_lastSignal = SELL\<rparr>) \<and>
   distinct_adj (non_hold_types
          [\<lparr>s_type = BUY, s_price = 5, s_timestamp = 3, s_confidence = Finite 0.9\<rparr>,
           \<lparr>s_type = HOLD, s_price = 6, s_timestamp = 4, s_confidence = Finite 0\<rparr>,
           \<lparr>s_type = SELL, s_price = 4, s_timestamp = 5, s_confidence = Finite 0.9\<rparr>])"
proof -
  have l: "latched_variant (MAC (new_MovingAverageCrossover (Finite 1) (Finite 2)))" by simp
  from latch_invariant [OF l run_turning] l run_turning show ?thesis by simp
qed

text \<open>
  The scalping strategy has no such field.  Closing a long position answers SELL, and
  the next call may open a short position, which answers SELL again.
\<close>

lemmas scalp_eval =
  scalp_analyze_def updatePositions_def cleanOldTrades_def checkExitConditions_def
  calculateMomentum_def countMoves_def slice_last_def getInstantScalpSignal_def
  checkEntryConditions_def map_delete_def holdSignal_def flat_candle_def Let_def
  new_ScalpingStrategy_def scalper_def scalping_candles_def

lemma scalp_step1:
  "scalp_analyze scalper (take 6 scalping_candles) =
     Inr (\<lparr>s_type = BUY, s_price = 101, s_timestamp = 6, s_confidence = Finite 0.8\<rparr>,
          scalper\<lparr>sc_positions :=
            [(''LONG'', \<lparr>p_entry = 101, p_timestamp = 6, p_candles = 0\<rparr>)]\<rparr>)"
  by (simp add: scalp_eval)

lemma scalp_step2:
  "scalp_analyze
     (scalper\<lparr>sc_positions :=
            [(''LONG'', \<lparr>p_entry = 101, p_timestamp = 6, p_candles = 0\<rparr>)]\<rparr>)
     (take 7 scalping_candles) =
     Inr (\<lparr>s_type = SELL, s_price = 100, s_timestamp = 7, s_confidence = Finite 0.8\<rparr>,
          scalper\<lparr>sc_positions := [], sc_recentTrades := [(7, - (100 / 101))]\<rparr>)"
  by (simp add: scalp_eval upt_conv_Cons)

lemma scalp_step3:
  "scalp_analyze
     (scalper\<lparr>sc_positions := [], sc_recentTrades := [(7, - (100 / 101))]\<rparr>)
     (take 8 scalping_candles) =
     Inr (\<lparr>s_type = SELL, s_price = 99, s_timestamp = 8, s_confidence = Finite 0.8\<rparr>,
          scalper\<lparr>sc_positions :=
                    [(''SHORT'', \<lparr>p_entry = 99, p_timestamp = 8, p_candles = 0\<rparr>)],
                  sc_recentTrades := [(7, - (100 / 101))]\<rparr>)"
  by (simp add: scalp_eval)

theorem scalping_latch_counterexample:
  "(case run analyze (Scalping scalper) (prefixes_from 5 scalping_candles) of
      Inl e \<Rightarrow> False
    | Inr (sgs, st') \<Rightarrow> non_hold_types sgs = [BUY, SELL, SELL])"
proof -
  have p: "prefixes_from 5 scalping_candles =
      [take 6 scalping_candles, take 7 scalping_candles, take 8 scalping_candles]"
    by (simp add: prefixes_from_def scalping_candles_def upt_conv_Cons)
  show ?thesis
    unfolding p
    by (simp add: lift_result_def scalp_step1 scalp_step2 scalp_step3 non_hold_types_def)
qed

end
